theory Spec2Isabelle
  imports Main "HOL-Library.Word"
begin

section \<open>The token records and the associated-token-account builders\<close>

text \<open>
  A shallow embedding of the codec of the Mint, Account and Multisig records and of
  the Create and CreateIdempotent instruction builders. The definitions come first,
  in the order of the source; the lemmas and the theorems of the claims follow.
\<close>

subsection \<open>Keys and little-endian integers\<close>

type_synonym u8 = "8 word"

type_synonym u32 = "32 word"

type_synonym u64 = "64 word"

text \<open>
  Modelled from the spec: \<^verbatim>\<open>PublicKey\<close>, \<^verbatim>\<open>PublicKeyFromBytes\<close> and
  \<^verbatim>\<open>IsZero\<close> are declared in the root package of the repository, outside the file
  at hand. Section 3 has a key as 32 bytes: the type holds exactly the byte lists of
  length 32. \<^verbatim>\<open>PublicKeyFromBytes\<close> copies up to 32 bytes into a zeroed array (the
  codec only ever passes it 32 bytes), and the zero key is the array of zero bytes.
\<close>

typedef PublicKey = "{bs :: u8 list. length bs = 32}"
proof
  show "replicate 32 0 \<in> {bs :: u8 list. length bs = 32}" by simp
qed

definition PublicKey_bytes :: "PublicKey \<Rightarrow> u8 list" where
  "PublicKey_bytes k = Rep_PublicKey k"

definition PublicKeyFromBytes :: "u8 list \<Rightarrow> PublicKey" where
  "PublicKeyFromBytes inp = Abs_PublicKey (take 32 inp @ replicate (32 - length inp) 0)"

definition zeroPublicKey :: PublicKey where
  "zeroPublicKey = Abs_PublicKey (replicate 32 0)"

definition IsZero :: "PublicKey \<Rightarrow> bool" where
  "IsZero p = (p = zeroPublicKey)"

text \<open>
  Little-endian integers, as \<^verbatim>\<open>binary.LittleEndian\<close> reads and writes them: the
  value of a byte string is the sum of its bytes, the byte at index \<open>i\<close> weighing
  \<open>256 ^ i\<close>. \<open>le_Uint32\<close> and \<open>le_Uint64\<close> read the first four and eight bytes of
  a slice; \<open>le_PutUint32\<close> and \<open>le_PutUint64\<close> give the four and eight bytes of a
  value.
\<close>

fun le_value :: "u8 list \<Rightarrow> nat" where
  "le_value [] = 0"
| "le_value (b # bs) = unat b + 256 * le_value bs"

fun le_bytes :: "nat \<Rightarrow> nat \<Rightarrow> u8 list" where
  "le_bytes 0 v = []"
| "le_bytes (Suc n) v = of_nat (v mod 256) # le_bytes n (v div 256)"

definition le_Uint32 :: "u8 list \<Rightarrow> u32" where
  "le_Uint32 b = of_nat (le_value (take 4 b))"

definition le_PutUint32 :: "u32 \<Rightarrow> u8 list" where
  "le_PutUint32 v = le_bytes 4 (unat v)"

definition le_Uint64 :: "u8 list \<Rightarrow> u64" where
  "le_Uint64 b = of_nat (le_value (take 8 b))"

definition le_PutUint64 :: "u64 \<Rightarrow> u8 list" where
  "le_PutUint64 v = le_bytes 8 (unat v)"

subsection \<open>The cursor-based decoder and the encoder\<close>

text \<open>
  The decoder and the encoder belong to the external binary library the records are
  written against. They are modelled as section 4.1 of the specification describes
  them: a decoder is a byte buffer with a read position, every read that asks for
  more bytes than remain fails, and nothing is truncated or padded. The encoder
  appends to an in-memory buffer, a sink whose writes never fail; the write
  primitives still return a result, so the marshal methods keep the shape of the
  source, where every write is followed by \<^verbatim>\<open>if err != nil { return err }\<close>.
\<close>

datatype error = UnexpectedEOF | SinkWriteFailure

definition and_then :: "'e + 'a \<Rightarrow> ('a \<Rightarrow> 'e + 'b) \<Rightarrow> 'e + 'b" where
  "and_then r f = (case r of Inl err \<Rightarrow> Inl err | Inr v \<Rightarrow> f v)"

record Decoder =
  data :: "u8 list"
  pos :: nat

definition NewBinDecoder :: "u8 list \<Rightarrow> Decoder" where
  "NewBinDecoder buf = \<lparr>data = buf, pos = 0\<rparr>"

definition Remaining :: "Decoder \<Rightarrow> nat" where
  "Remaining dec = length (data dec) - pos dec"

definition ReadByte :: "Decoder \<Rightarrow> error + (u8 \<times> Decoder)" where
  "ReadByte dec =
     (if Remaining dec < 1 then Inl UnexpectedEOF
      else Inr (data dec ! pos dec, dec\<lparr>pos := pos dec + 1\<rparr>))"

definition ReadUint8 :: "Decoder \<Rightarrow> error + (u8 \<times> Decoder)" where
  "ReadUint8 dec = ReadByte dec"

definition ReadBool :: "Decoder \<Rightarrow> error + (bool \<times> Decoder)" where
  "ReadBool dec =
     (if Remaining dec < 1 then Inl UnexpectedEOF
      else and_then (ReadByte dec) (\<lambda>(b, dec). Inr (b \<noteq> 0, dec)))"

definition ReadUint32 :: "Decoder \<Rightarrow> error + (u32 \<times> Decoder)" where
  "ReadUint32 dec =
     (if Remaining dec < 4 then Inl UnexpectedEOF
      else Inr (le_Uint32 (drop (pos dec) (data dec)), dec\<lparr>pos := pos dec + 4\<rparr>))"

definition ReadUint64 :: "Decoder \<Rightarrow> error + (u64 \<times> Decoder)" where
  "ReadUint64 dec =
     (if Remaining dec < 8 then Inl UnexpectedEOF
      else Inr (le_Uint64 (drop (pos dec) (data dec)), dec\<lparr>pos := pos dec + 8\<rparr>))"

definition ReadNBytes :: "nat \<Rightarrow> Decoder \<Rightarrow> error + (u8 list \<times> Decoder)" where
  "ReadNBytes n dec =
     (if n = 0 then Inr ([], dec)
      else if Remaining dec < n then Inl UnexpectedEOF
      else Inr (take n (drop (pos dec) (data dec)), dec\<lparr>pos := pos dec + n\<rparr>))"

type_synonym Encoder = "u8 list"

definition WriteBytes :: "u8 list \<Rightarrow> Encoder \<Rightarrow> error + Encoder" where
  "WriteBytes b enc = Inr (enc @ b)"

definition WriteByte :: "u8 \<Rightarrow> Encoder \<Rightarrow> error + Encoder" where
  "WriteByte b enc = Inr (enc @ [b])"

definition WriteUint8 :: "u8 \<Rightarrow> Encoder \<Rightarrow> error + Encoder" where
  "WriteUint8 i enc = WriteByte i enc"

definition WriteBool :: "bool \<Rightarrow> Encoder \<Rightarrow> error + Encoder" where
  "WriteBool b enc = WriteByte (if b then 1 else 0) enc"

definition WriteUint32 :: "u32 \<Rightarrow> Encoder \<Rightarrow> error + Encoder" where
  "WriteUint32 i enc = Inr (enc @ le_PutUint32 i)"

definition WriteUint64 :: "u64 \<Rightarrow> Encoder \<Rightarrow> error + Encoder" where
  "WriteUint64 i enc = Inr (enc @ le_PutUint64 i)"

subsection \<open>The Mint record\<close>

record Mint =
  MintAuthority :: "PublicKey option"
  Supply :: u64
  Decimals :: u8
  IsInitialized :: bool
  FreezeAuthority :: "PublicKey option"

text \<open>
  \<^verbatim>\<open>Mint.UnmarshalWithDecoder\<close> has a pointer receiver and assigns fields one by
  one: the receiver is an argument of the model, and a field the method does not assign
  keeps the value the receiver had.
\<close>

definition Mint_UnmarshalWithDecoder :: "Mint \<Rightarrow> Decoder \<Rightarrow> error + (Mint \<times> Decoder)" where
  "Mint_UnmarshalWithDecoder mint dec =
     and_then (ReadUint32 dec) (\<lambda>(v, dec).
     and_then
       (if v = 1 then
          and_then (ReadNBytes 32 dec) (\<lambda>(v, dec).
          Inr (mint\<lparr>MintAuthority := Some (PublicKeyFromBytes v)\<rparr>, dec))
        else
          and_then (ReadNBytes 32 dec) (\<lambda>(discarded, dec).
          Inr (mint, dec))) (\<lambda>(mint, dec).
     and_then (ReadUint64 dec) (\<lambda>(v, dec).
     let mint = mint\<lparr>Supply := v\<rparr> in
     and_then (ReadUint8 dec) (\<lambda>(v, dec).
     let mint = mint\<lparr>Decimals := v\<rparr> in
     and_then (ReadBool dec) (\<lambda>(v, dec).
     let mint = mint\<lparr>Mint.IsInitialized := v\<rparr> in
     and_then (ReadUint32 dec) (\<lambda>(v, dec).
     (if v = 1 then
        and_then (ReadNBytes 32 dec) (\<lambda>(v, dec).
        Inr (mint\<lparr>FreezeAuthority := Some (PublicKeyFromBytes v)\<rparr>, dec))
      else
        and_then (ReadNBytes 32 dec) (\<lambda>(discarded, dec).
        Inr (mint, dec)))))))))"

definition Mint_MarshalWithEncoder :: "Mint \<Rightarrow> Encoder \<Rightarrow> error + Encoder" where
  "Mint_MarshalWithEncoder mint encoder =
     and_then
       (case MintAuthority mint of
          None \<Rightarrow>
            and_then (WriteUint32 0 encoder) (\<lambda>encoder.
            WriteBytes (PublicKey_bytes zeroPublicKey) encoder)
        | Some authority \<Rightarrow>
            and_then (WriteUint32 1 encoder) (\<lambda>encoder.
            WriteBytes (PublicKey_bytes authority) encoder)) (\<lambda>encoder.
     and_then (WriteUint64 (Supply mint) encoder) (\<lambda>encoder.
     and_then (WriteUint8 (Decimals mint) encoder) (\<lambda>encoder.
     and_then (WriteBool (Mint.IsInitialized mint) encoder) (\<lambda>encoder.
     (case FreezeAuthority mint of
        None \<Rightarrow>
          and_then (WriteUint32 0 encoder) (\<lambda>encoder.
          WriteBytes (PublicKey_bytes zeroPublicKey) encoder)
      | Some authority \<Rightarrow>
          and_then (WriteUint32 1 encoder) (\<lambda>encoder.
          WriteBytes (PublicKey_bytes authority) encoder))))))"

subsection \<open>The Account record\<close>

text \<open>\<^verbatim>\<open>AccountState\<close> is a one-byte enum; the codec stores and reads any byte.\<close>

type_synonym AccountState = u8

record Account =
  Mint :: PublicKey
  Owner :: PublicKey
  Amount :: u64
  Delegate :: "PublicKey option"
  State :: AccountState
  IsNative :: "u64 option"
  DelegatedAmount :: u64
  CloseAuthority :: "PublicKey option"

definition Account_UnmarshalWithDecoder :: "Account \<Rightarrow> Decoder \<Rightarrow> error + (Account \<times> Decoder)" where
  "Account_UnmarshalWithDecoder mint dec =
     and_then (ReadNBytes 32 dec) (\<lambda>(v, dec).
     let mint = mint\<lparr>Mint := PublicKeyFromBytes v\<rparr> in
     and_then (ReadNBytes 32 dec) (\<lambda>(v, dec).
     let mint = mint\<lparr>Owner := PublicKeyFromBytes v\<rparr> in
     and_then (ReadUint64 dec) (\<lambda>(v, dec).
     let mint = mint\<lparr>Amount := v\<rparr> in
     and_then (ReadUint32 dec) (\<lambda>(v, dec).
     and_then
       (if v = 1 then
          and_then (ReadNBytes 32 dec) (\<lambda>(v, dec).
          Inr (mint\<lparr>Delegate := Some (PublicKeyFromBytes v)\<rparr>, dec))
        else
          and_then (ReadNBytes 32 dec) (\<lambda>(discarded, dec).
          Inr (mint, dec))) (\<lambda>(mint, dec).
     and_then (ReadUint8 dec) (\<lambda>(v, dec).
     let mint = mint\<lparr>State := v\<rparr> in
     and_then (ReadUint32 dec) (\<lambda>(v, dec).
     and_then
       (if v = 1 then
          and_then (ReadUint64 dec) (\<lambda>(v, dec).
          Inr (mint\<lparr>IsNative := Some v\<rparr>, dec))
        else
          and_then (ReadUint64 dec) (\<lambda>(discarded, dec).
          Inr (mint, dec))) (\<lambda>(mint, dec).
     and_then (ReadUint64 dec) (\<lambda>(v, dec).
     let mint = mint\<lparr>DelegatedAmount := v\<rparr> in
     and_then (ReadUint32 dec) (\<lambda>(v, dec).
     (if v = 1 then
        and_then (ReadNBytes 32 dec) (\<lambda>(v, dec).
        Inr (mint\<lparr>CloseAuthority := Some (PublicKeyFromBytes v)\<rparr>, dec))
      else
        and_then (ReadNBytes 32 dec) (\<lambda>(discarded, dec).
        Inr (mint, dec)))))))))))))"

definition Account_MarshalWithEncoder :: "Account \<Rightarrow> Encoder \<Rightarrow> error + Encoder" where
  "Account_MarshalWithEncoder mint encoder =
     and_then (WriteBytes (PublicKey_bytes (Mint mint)) encoder) (\<lambda>encoder.
     and_then (WriteBytes (PublicKey_bytes (Owner mint)) encoder) (\<lambda>encoder.
     and_then (WriteUint64 (Amount mint) encoder) (\<lambda>encoder.
     and_then
       (case Delegate mint of
          None \<Rightarrow>
            and_then (WriteUint32 0 encoder) (\<lambda>encoder.
            WriteBytes (PublicKey_bytes zeroPublicKey) encoder)
        | Some delegate \<Rightarrow>
            and_then (WriteUint32 1 encoder) (\<lambda>encoder.
            WriteBytes (PublicKey_bytes delegate) encoder)) (\<lambda>encoder.
     and_then (WriteUint8 (State mint) encoder) (\<lambda>encoder.
     and_then
       (case IsNative mint of
          None \<Rightarrow>
            and_then (WriteUint32 0 encoder) (\<lambda>encoder.
            WriteUint64 0 encoder)
        | Some reserve \<Rightarrow>
            and_then (WriteUint32 1 encoder) (\<lambda>encoder.
            WriteUint64 reserve encoder)) (\<lambda>encoder.
     and_then (WriteUint64 (DelegatedAmount mint) encoder) (\<lambda>encoder.
     (case CloseAuthority mint of
        None \<Rightarrow>
          and_then (WriteUint32 0 encoder) (\<lambda>encoder.
          WriteBytes (PublicKey_bytes zeroPublicKey) encoder)
      | Some authority \<Rightarrow>
          and_then (WriteUint32 1 encoder) (\<lambda>encoder.
          WriteBytes (PublicKey_bytes authority) encoder)))))))))"

subsection \<open>The Multisig record\<close>

text \<open>
  \<^verbatim>\<open>Signers\<close> is an array of \<^verbatim>\<open>MAX_SIGNERS\<close> keys. The constant is declared
  outside the file at hand; it is a parameter of the decoder, which reads as many keys
  as the array holds. The library's generic \<^verbatim>\<open>Encode\<close> and \<^verbatim>\<open>Decode\<close> go by the
  type of the field: one byte for \<^verbatim>\<open>uint8\<close>, one byte for \<^verbatim>\<open>bool\<close>, and the
  elements of an array one after the other, with no length prefix.
\<close>

record Multisig =
  M :: u8
  N :: u8
  IsInitialized :: bool
  Signers :: "PublicKey list"

fun Encode_PublicKeys :: "PublicKey list \<Rightarrow> Encoder \<Rightarrow> error + Encoder" where
  "Encode_PublicKeys [] encoder = Inr encoder"
| "Encode_PublicKeys (k # ks) encoder =
     and_then (WriteBytes (PublicKey_bytes k) encoder) (\<lambda>encoder.
     Encode_PublicKeys ks encoder)"

fun Decode_PublicKeys :: "nat \<Rightarrow> Decoder \<Rightarrow> error + (PublicKey list \<times> Decoder)" where
  "Decode_PublicKeys 0 decoder = Inr ([], decoder)"
| "Decode_PublicKeys (Suc n) decoder =
     and_then (ReadNBytes 32 decoder) (\<lambda>(v, decoder).
     and_then (Decode_PublicKeys n decoder) (\<lambda>(ks, decoder).
     Inr (PublicKeyFromBytes v # ks, decoder)))"

definition Multisig_MarshalWithEncoder :: "Multisig \<Rightarrow> Encoder \<Rightarrow> error + Encoder" where
  "Multisig_MarshalWithEncoder obj encoder =
     and_then (WriteUint8 (M obj) encoder) (\<lambda>encoder.
     and_then (WriteUint8 (N obj) encoder) (\<lambda>encoder.
     and_then (WriteBool (Multisig.IsInitialized obj) encoder) (\<lambda>encoder.
     Encode_PublicKeys (Signers obj) encoder)))"

definition Multisig_UnmarshalWithDecoder ::
  "nat \<Rightarrow> Multisig \<Rightarrow> Decoder \<Rightarrow> error + (Multisig \<times> Decoder)" where
  "Multisig_UnmarshalWithDecoder MAX_SIGNERS obj decoder =
     and_then (ReadUint8 decoder) (\<lambda>(v, decoder).
     let obj = obj\<lparr>M := v\<rparr> in
     and_then (ReadUint8 decoder) (\<lambda>(v, decoder).
     let obj = obj\<lparr>N := v\<rparr> in
     and_then (ReadBool decoder) (\<lambda>(v, decoder).
     let obj = obj\<lparr>Multisig.IsInitialized := v\<rparr> in
     and_then (Decode_PublicKeys MAX_SIGNERS decoder) (\<lambda>(v, decoder).
     Inr (obj\<lparr>Signers := v\<rparr>, decoder)))))"


subsection \<open>Account metas and the constants of the surrounding package\<close>

text \<open>
  Modelled from the spec: \<^verbatim>\<open>AccountMeta\<close>, \<^verbatim>\<open>Meta\<close>, \<^verbatim>\<open>WRITE\<close> and
  \<^verbatim>\<open>SIGNER\<close> are declared in the root package of the repository, outside the
  file at hand. Section 3 gives the shape (an address, a writable flag and a signer
  flag); \<^verbatim>\<open>Meta\<close> makes a role with both flags off, \<^verbatim>\<open>WRITE\<close> and
  \<^verbatim>\<open>SIGNER\<close> switch one flag on, as the slot comments of the builders
  (\<^verbatim>\<open>[WRITE, SIGNER]\<close>, \<^verbatim>\<open>[WRITE]\<close>, \<^verbatim>\<open>[]\<close>) read.
\<close>

record AccountMeta =
  PublicKey :: PublicKey
  IsWritable :: bool
  IsSigner :: bool

definition Meta :: "PublicKey \<Rightarrow> AccountMeta" where
  "Meta pubKey = \<lparr>PublicKey = pubKey, IsWritable = False, IsSigner = False\<rparr>"

definition WRITE :: "AccountMeta \<Rightarrow> AccountMeta" where
  "WRITE meta = meta\<lparr>IsWritable := True\<rparr>"

definition SIGNER :: "AccountMeta \<Rightarrow> AccountMeta" where
  "SIGNER meta = meta\<lparr>IsSigner := True\<rparr>"

text \<open>
  An \<^verbatim>\<open>AccountMetaSlice\<close> is a slice of pointers: a slot is \<open>None\<close> while it
  holds \<^verbatim>\<open>nil\<close>. The builders embed the slice, their only field, so a builder is
  its slice. A method with a value receiver copies the slice header only; the slots
  are shared with the caller, and every method of the model returns the slots as it
  leaves them.
\<close>

type_synonym AccountMetaSlice = "AccountMeta option list"

text \<open>
  The well-known keys, the id of the owning program, the two instruction
  discriminants and the address derivation are declared outside the file at hand;
  they are parameters of the model. \<^verbatim>\<open>FindProgramAddress\<close> is the external
  derivation of section 6: from the seeds and a program id to an address, a bump and
  a validity flag.
\<close>

record Env =
  SystemProgramID :: PublicKey
  TokenProgramID :: PublicKey
  SysVarRentPubkey :: PublicKey
  ProgramID :: PublicKey
  Instruction_Create :: u8
  Instruction_CreateIdempotent :: u8
  FindProgramAddress :: "u8 list list \<Rightarrow> PublicKey \<Rightarrow> PublicKey \<times> u8 \<times> bool"

text \<open>
  Modelled from the spec: \<^verbatim>\<open>FindAssociatedTokenAddress\<close> is a function of the
  root package, outside the file at hand. Section 4.5: the address is derived by the
  external derivation function with seeds (walletKey, tokenProgramKey, mintKey)
  against the fixed owning-program id. The arguments come in the order of the call
  sites: wallet, mint, token program.
\<close>

definition FindAssociatedTokenAddress ::
  "Env \<Rightarrow> PublicKey \<Rightarrow> PublicKey \<Rightarrow> PublicKey \<Rightarrow> PublicKey \<times> u8 \<times> bool" where
  "FindAssociatedTokenAddress env wallet mint tokenProgramID =
     FindProgramAddress env
       [PublicKey_bytes wallet, PublicKey_bytes tokenProgramID, PublicKey_bytes mint]
       (ProgramID env)"

text \<open>
  What stops a method before it returns: an index past the end of the slice, or a
  field read through a \<^verbatim>\<open>nil\<close> pointer. Both are run-time panics of the source.
\<close>

datatype panic = IndexOutOfRange | NilDereference

definition index_get :: "'a list \<Rightarrow> nat \<Rightarrow> panic + 'a" where
  "index_get xs i = (if i < length xs then Inr (xs ! i) else Inl IndexOutOfRange)"

definition index_set :: "'a list \<Rightarrow> nat \<Rightarrow> 'a \<Rightarrow> panic + 'a list" where
  "index_set xs i v = (if i < length xs then Inr (xs[i := v]) else Inl IndexOutOfRange)"

definition deref :: "'a option \<Rightarrow> panic + 'a" where
  "deref p = (case p of None \<Rightarrow> Inl NilDereference | Some v \<Rightarrow> Inr v)"

text \<open>
  The test both \<^verbatim>\<open>Build\<close> and \<^verbatim>\<open>Validate\<close> make of slot 1,
  \<^verbatim>\<open>ata == nil || ata.PublicKey.IsZero()\<close>.
\<close>

definition slot_unset :: "AccountMeta option \<Rightarrow> bool" where
  "slot_unset ata = (case ata of None \<Rightarrow> True | Some a \<Rightarrow> IsZero (PublicKey a))"

text \<open>
  The error of \<^verbatim>\<open>Validate\<close>,
  \<^verbatim>\<open>fmt.Errorf("ins.AccountMetaSlice[%v] is not set", accIndex)\<close>, which the
  specification calls \<^verbatim>\<open>MissingAccountRole{index}\<close>.
\<close>

datatype validate_error = MissingAccountRole nat

text \<open>
  The loop of \<^verbatim>\<open>Validate\<close> over the slots, from index \<open>accIndex\<close> on: the index
  of the first \<^verbatim>\<open>nil\<close> slot, if there is one.
\<close>

fun range_unset :: "nat \<Rightarrow> AccountMetaSlice \<Rightarrow> nat option" where
  "range_unset accIndex [] = None"
| "range_unset accIndex (acc # rest) =
     (if acc = None then Some accIndex else range_unset (Suc accIndex) rest)"

text \<open>
  An instruction holds the builder it was built from and its discriminant
  (\<^verbatim>\<open>TypeIDFromUint8\<close> of the instruction's constant).
\<close>

datatype Impl = Impl_Create AccountMetaSlice | Impl_CreateIdempotent AccountMetaSlice

record Instruction =
  Impl :: Impl
  TypeID :: u8

fun Impl_accounts :: "Impl \<Rightarrow> AccountMetaSlice" where
  "Impl_accounts (Impl_Create inst) = inst"
| "Impl_accounts (Impl_CreateIdempotent inst) = inst"

subsection \<open>The Create builder\<close>

definition NewCreateInstructionBuilder :: "Env \<Rightarrow> AccountMetaSlice" where
  "NewCreateInstructionBuilder env =
     (replicate 7 None)
       [4 := Some (Meta (SystemProgramID env)),
        5 := Some (Meta (TokenProgramID env)),
        6 := Some (Meta (SysVarRentPubkey env))]"

definition Create_SetPayer :: "PublicKey \<Rightarrow> AccountMetaSlice \<Rightarrow> panic + AccountMetaSlice" where
  "Create_SetPayer payer inst = index_set inst 0 (Some (SIGNER (WRITE (Meta payer))))"

definition Create_GetPayer :: "AccountMetaSlice \<Rightarrow> panic + AccountMeta option" where
  "Create_GetPayer inst = index_get inst 0"

definition Create_SetAssociatedTokenAccount ::
  "PublicKey \<Rightarrow> AccountMetaSlice \<Rightarrow> panic + AccountMetaSlice" where
  "Create_SetAssociatedTokenAccount associatedTokenAccount inst =
     index_set inst 1 (Some (WRITE (Meta associatedTokenAccount)))"

definition Create_GetAssociatedTokenAccount :: "AccountMetaSlice \<Rightarrow> panic + AccountMeta option" where
  "Create_GetAssociatedTokenAccount inst = index_get inst 1"

definition Create_SetWallet :: "PublicKey \<Rightarrow> AccountMetaSlice \<Rightarrow> panic + AccountMetaSlice" where
  "Create_SetWallet wallet inst = index_set inst 2 (Some (Meta wallet))"

definition Create_GetWallet :: "AccountMetaSlice \<Rightarrow> panic + AccountMeta option" where
  "Create_GetWallet inst = index_get inst 2"

definition Create_SetMint :: "PublicKey \<Rightarrow> AccountMetaSlice \<Rightarrow> panic + AccountMetaSlice" where
  "Create_SetMint mint inst = index_set inst 3 (Some (Meta mint))"

definition Create_GetMint :: "AccountMetaSlice \<Rightarrow> panic + AccountMeta option" where
  "Create_GetMint inst = index_get inst 3"

definition Create_SetTokenProgramID :: "PublicKey \<Rightarrow> AccountMetaSlice \<Rightarrow> panic + AccountMetaSlice" where
  "Create_SetTokenProgramID tokenProgramID inst = index_set inst 5 (Some (Meta tokenProgramID))"

definition Create_GetTokenProgramID :: "AccountMetaSlice \<Rightarrow> panic + AccountMeta option" where
  "Create_GetTokenProgramID inst = index_get inst 5"

text \<open>
  The block that opens both \<^verbatim>\<open>Build\<close> and \<^verbatim>\<open>Validate\<close>, word for word the
  same in the two methods: when slot 1 is \<^verbatim>\<open>nil\<close> or holds the zero key, the
  address is derived from the keys of the wallet, mint and token-program slots, each
  read through its pointer, and set. The bump and the validity flag are dropped.
\<close>

definition Create_derive_if_unset :: "Env \<Rightarrow> AccountMetaSlice \<Rightarrow> panic + AccountMetaSlice" where
  "Create_derive_if_unset env inst =
     and_then (index_get inst 1) (\<lambda>ata.
     if slot_unset ata then
       and_then (and_then (Create_GetWallet inst) deref) (\<lambda>wallet.
       and_then (and_then (Create_GetMint inst) deref) (\<lambda>mint.
       and_then (and_then (Create_GetTokenProgramID inst) deref) (\<lambda>tokenProgram.
       (case FindAssociatedTokenAddress env
               (PublicKey wallet) (PublicKey mint) (PublicKey tokenProgram) of
          (associatedTokenAddress, bump, found) \<Rightarrow>
            Create_SetAssociatedTokenAccount associatedTokenAddress inst))))
     else Inr inst)"

definition Create_Build :: "Env \<Rightarrow> AccountMetaSlice \<Rightarrow> panic + (Instruction \<times> AccountMetaSlice)" where
  "Create_Build env inst =
     and_then (Create_derive_if_unset env inst) (\<lambda>inst.
     Inr (\<lparr>Impl = Impl_Create inst, TypeID = Instruction_Create env\<rparr>, inst))"

definition Create_Validate ::
  "Env \<Rightarrow> AccountMetaSlice \<Rightarrow> panic + (validate_error option \<times> AccountMetaSlice)" where
  "Create_Validate env inst =
     and_then (Create_derive_if_unset env inst) (\<lambda>inst.
     Inr (case range_unset 0 inst of
            Some accIndex \<Rightarrow> Some (MissingAccountRole accIndex)
          | None \<Rightarrow> None,
          inst))"


definition Create_MarshalWithEncoder :: "AccountMetaSlice \<Rightarrow> Encoder \<Rightarrow> error + Encoder" where
  "Create_MarshalWithEncoder inst encoder = WriteBytes [] encoder"

definition NewCreateInstruction ::
  "Env \<Rightarrow> PublicKey \<Rightarrow> PublicKey \<Rightarrow> PublicKey \<Rightarrow> PublicKey \<Rightarrow> panic + AccountMetaSlice" where
  "NewCreateInstruction env payer walletAddress splTokenMintAddress tokenProgramID =
     and_then (Create_SetPayer payer (NewCreateInstructionBuilder env)) (\<lambda>inst.
     and_then (Create_SetWallet walletAddress inst) (\<lambda>inst.
     and_then (Create_SetMint splTokenMintAddress inst) (\<lambda>inst.
     Create_SetTokenProgramID tokenProgramID inst)))"

subsection \<open>The CreateIdempotent builder\<close>

definition NewCreateIdempotentInstructionBuilder :: "Env \<Rightarrow> AccountMetaSlice" where
  "NewCreateIdempotentInstructionBuilder env =
     (replicate 7 None)
       [4 := Some (Meta (SystemProgramID env)),
        5 := Some (Meta (TokenProgramID env)),
        6 := Some (Meta (SysVarRentPubkey env))]"

definition CreateIdempotent_SetPayer :: "PublicKey \<Rightarrow> AccountMetaSlice \<Rightarrow> panic + AccountMetaSlice" where
  "CreateIdempotent_SetPayer payer inst = index_set inst 0 (Some (SIGNER (WRITE (Meta payer))))"

definition CreateIdempotent_GetPayer :: "AccountMetaSlice \<Rightarrow> panic + AccountMeta option" where
  "CreateIdempotent_GetPayer inst = index_get inst 0"

definition CreateIdempotent_SetAssociatedTokenAccount ::
  "PublicKey \<Rightarrow> AccountMetaSlice \<Rightarrow> panic + AccountMetaSlice" where
  "CreateIdempotent_SetAssociatedTokenAccount associatedTokenAccount inst =
     index_set inst 1 (Some (WRITE (Meta associatedTokenAccount)))"

definition CreateIdempotent_GetAssociatedTokenAccount :: "AccountMetaSlice \<Rightarrow> panic + AccountMeta option" where
  "CreateIdempotent_GetAssociatedTokenAccount inst = index_get inst 1"

definition CreateIdempotent_SetWallet :: "PublicKey \<Rightarrow> AccountMetaSlice \<Rightarrow> panic + AccountMetaSlice" where
  "CreateIdempotent_SetWallet wallet inst = index_set inst 2 (Some (Meta wallet))"

definition CreateIdempotent_GetWallet :: "AccountMetaSlice \<Rightarrow> panic + AccountMeta option" where
  "CreateIdempotent_GetWallet inst = index_get inst 2"

definition CreateIdempotent_SetMint :: "PublicKey \<Rightarrow> AccountMetaSlice \<Rightarrow> panic + AccountMetaSlice" where
  "CreateIdempotent_SetMint mint inst = index_set inst 3 (Some (Meta mint))"

definition CreateIdempotent_GetMint :: "AccountMetaSlice \<Rightarrow> panic + AccountMeta option" where
  "CreateIdempotent_GetMint inst = index_get inst 3"

definition CreateIdempotent_SetTokenProgramID :: "PublicKey \<Rightarrow> AccountMetaSlice \<Rightarrow> panic + AccountMetaSlice" where
  "CreateIdempotent_SetTokenProgramID tokenProgramID inst = index_set inst 5 (Some (Meta tokenProgramID))"

definition CreateIdempotent_GetTokenProgramID :: "AccountMetaSlice \<Rightarrow> panic + AccountMeta option" where
  "CreateIdempotent_GetTokenProgramID inst = index_get inst 5"

text \<open>The same block, as the methods of CreateIdempotent have it.\<close>

definition CreateIdempotent_derive_if_unset :: "Env \<Rightarrow> AccountMetaSlice \<Rightarrow> panic + AccountMetaSlice" where
  "CreateIdempotent_derive_if_unset env inst =
     and_then (index_get inst 1) (\<lambda>ata.
     if slot_unset ata then
       and_then (and_then (CreateIdempotent_GetWallet inst) deref) (\<lambda>wallet.
       and_then (and_then (CreateIdempotent_GetMint inst) deref) (\<lambda>mint.
       and_then (and_then (CreateIdempotent_GetTokenProgramID inst) deref) (\<lambda>tokenProgram.
       (case FindAssociatedTokenAddress env
               (PublicKey wallet) (PublicKey mint) (PublicKey tokenProgram) of
          (associatedTokenAddress, bump, found) \<Rightarrow>
            CreateIdempotent_SetAssociatedTokenAccount associatedTokenAddress inst))))
     else Inr inst)"

definition CreateIdempotent_Build :: "Env \<Rightarrow> AccountMetaSlice \<Rightarrow> panic + (Instruction \<times> AccountMetaSlice)" where
  "CreateIdempotent_Build env inst =
     and_then (CreateIdempotent_derive_if_unset env inst) (\<lambda>inst.
     Inr (\<lparr>Impl = Impl_CreateIdempotent inst, TypeID = Instruction_CreateIdempotent env\<rparr>, inst))"

definition CreateIdempotent_Validate ::
  "Env \<Rightarrow> AccountMetaSlice \<Rightarrow> panic + (validate_error option \<times> AccountMetaSlice)" where
  "CreateIdempotent_Validate env inst =
     and_then (CreateIdempotent_derive_if_unset env inst) (\<lambda>inst.
     Inr (case range_unset 0 inst of
            Some accIndex \<Rightarrow> Some (MissingAccountRole accIndex)
          | None \<Rightarrow> None,
          inst))"


definition CreateIdempotent_MarshalWithEncoder :: "AccountMetaSlice \<Rightarrow> Encoder \<Rightarrow> error + Encoder" where
  "CreateIdempotent_MarshalWithEncoder inst encoder = WriteBytes [] encoder"

definition NewCreateIdempotentInstruction ::
  "Env \<Rightarrow> PublicKey \<Rightarrow> PublicKey \<Rightarrow> PublicKey \<Rightarrow> PublicKey \<Rightarrow> panic + AccountMetaSlice" where
  "NewCreateIdempotentInstruction env payer walletAddress splTokenMintAddress tokenProgramID =
     and_then (CreateIdempotent_SetPayer payer (NewCreateIdempotentInstructionBuilder env)) (\<lambda>inst.
     and_then (CreateIdempotent_SetWallet walletAddress inst) (\<lambda>inst.
     and_then (CreateIdempotent_SetMint splTokenMintAddress inst) (\<lambda>inst.
     CreateIdempotent_SetTokenProgramID tokenProgramID inst)))"


subsection \<open>Sequences of setter calls\<close>

text \<open>
  A caller configures a builder by a sequence of setter calls. \<open>Create_calls\<close> and
  \<open>CreateIdempotent_calls\<close> run the same sequence on a builder of either kind; a call
  that panics ends the sequence.
\<close>

datatype setter_call =
    SetPayer PublicKey
  | SetAssociatedTokenAccount PublicKey
  | SetWallet PublicKey
  | SetMint PublicKey
  | SetTokenProgramID PublicKey

fun Create_call :: "setter_call \<Rightarrow> AccountMetaSlice \<Rightarrow> panic + AccountMetaSlice" where
  "Create_call (SetPayer k) inst = Create_SetPayer k inst"
| "Create_call (SetAssociatedTokenAccount k) inst = Create_SetAssociatedTokenAccount k inst"
| "Create_call (SetWallet k) inst = Create_SetWallet k inst"
| "Create_call (SetMint k) inst = Create_SetMint k inst"
| "Create_call (SetTokenProgramID k) inst = Create_SetTokenProgramID k inst"

fun Create_calls :: "setter_call list \<Rightarrow> AccountMetaSlice \<Rightarrow> panic + AccountMetaSlice" where
  "Create_calls [] inst = Inr inst"
| "Create_calls (c # cs) inst = and_then (Create_call c inst) (Create_calls cs)"

fun CreateIdempotent_call :: "setter_call \<Rightarrow> AccountMetaSlice \<Rightarrow> panic + AccountMetaSlice" where
  "CreateIdempotent_call (SetPayer k) inst = CreateIdempotent_SetPayer k inst"
| "CreateIdempotent_call (SetAssociatedTokenAccount k) inst =
     CreateIdempotent_SetAssociatedTokenAccount k inst"
| "CreateIdempotent_call (SetWallet k) inst = CreateIdempotent_SetWallet k inst"
| "CreateIdempotent_call (SetMint k) inst = CreateIdempotent_SetMint k inst"
| "CreateIdempotent_call (SetTokenProgramID k) inst = CreateIdempotent_SetTokenProgramID k inst"

fun CreateIdempotent_calls ::
  "setter_call list \<Rightarrow> AccountMetaSlice \<Rightarrow> panic + AccountMetaSlice" where
  "CreateIdempotent_calls [] inst = Inr inst"
| "CreateIdempotent_calls (c # cs) inst =
     and_then (CreateIdempotent_call c inst) (CreateIdempotent_calls cs)"

subsection \<open>An environment for the examples\<close>

text \<open>
  Keys of one repeated byte, and an environment whose derivation shows the order of
  its seeds: the derived address starts with the first byte of each seed, in order,
  then the first byte of the program id.
\<close>

definition key_of :: "u8 \<Rightarrow> PublicKey" where
  "key_of b = PublicKeyFromBytes (replicate 32 b)"

definition example_env :: Env where
  "example_env =
     \<lparr>SystemProgramID = key_of 0, TokenProgramID = key_of 6, SysVarRentPubkey = key_of 7,
      ProgramID = key_of 8, Instruction_Create = 0, Instruction_CreateIdempotent = 1,
      FindProgramAddress =
        (\<lambda>seeds programID.
           (PublicKeyFromBytes (map hd seeds @ [hd (PublicKey_bytes programID)]), 255, False))\<rparr>"


subsection \<open>Decoding a buffer and encoding the record again\<close>

text \<open>
  The zero values \<^verbatim>\<open>Mint{}\<close>, \<^verbatim>\<open>Account{}\<close> and \<^verbatim>\<open>Multisig{}\<close>: the receiver
  a caller decodes into. \<open>Mint_decode\<close>, \<open>Account_decode\<close> and \<open>Multisig_decode\<close>
  decode a buffer from its first byte into the zero value; the \<open>encode\<close> functions
  marshal a record into an empty buffer; the \<open>reencode\<close> functions do one after the
  other.
\<close>

definition Mint_zero :: Mint where
  "Mint_zero = \<lparr>MintAuthority = None, Supply = 0, Decimals = 0, IsInitialized = False,
     FreezeAuthority = None\<rparr>"

definition Account_zero :: Account where
  "Account_zero = \<lparr>Mint = zeroPublicKey, Owner = zeroPublicKey, Amount = 0, Delegate = None,
     State = 0, IsNative = None, DelegatedAmount = 0, CloseAuthority = None\<rparr>"

definition Multisig_zero :: "nat \<Rightarrow> Multisig" where
  "Multisig_zero MAX_SIGNERS = \<lparr>M = 0, N = 0, IsInitialized = False,
     Signers = replicate MAX_SIGNERS zeroPublicKey\<rparr>"

definition Mint_decode :: "u8 list \<Rightarrow> error + (Mint \<times> Decoder)" where
  "Mint_decode buf = Mint_UnmarshalWithDecoder Mint_zero (NewBinDecoder buf)"

definition Account_decode :: "u8 list \<Rightarrow> error + (Account \<times> Decoder)" where
  "Account_decode buf = Account_UnmarshalWithDecoder Account_zero (NewBinDecoder buf)"

definition Multisig_decode :: "nat \<Rightarrow> u8 list \<Rightarrow> error + (Multisig \<times> Decoder)" where
  "Multisig_decode MAX_SIGNERS buf =
     Multisig_UnmarshalWithDecoder MAX_SIGNERS (Multisig_zero MAX_SIGNERS) (NewBinDecoder buf)"

definition Mint_encode :: "Mint \<Rightarrow> error + u8 list" where
  "Mint_encode mint = Mint_MarshalWithEncoder mint []"

definition Account_encode :: "Account \<Rightarrow> error + u8 list" where
  "Account_encode account = Account_MarshalWithEncoder account []"

definition Multisig_encode :: "Multisig \<Rightarrow> error + u8 list" where
  "Multisig_encode obj = Multisig_MarshalWithEncoder obj []"

definition Mint_reencode :: "u8 list \<Rightarrow> error + u8 list" where
  "Mint_reencode buf = and_then (Mint_decode buf) (\<lambda>(mint, dec). Mint_encode mint)"

definition Account_reencode :: "u8 list \<Rightarrow> error + u8 list" where
  "Account_reencode buf = and_then (Account_decode buf) (\<lambda>(account, dec). Account_encode account)"

definition Multisig_reencode :: "nat \<Rightarrow> u8 list \<Rightarrow> error + u8 list" where
  "Multisig_reencode MAX_SIGNERS buf =
     and_then (Multisig_decode MAX_SIGNERS buf) (\<lambda>(obj, dec). Multisig_encode obj)"

text \<open>
  The buffers an encoder can produce. An optional field takes a slot of a four-byte flag
  and a payload: the slot is canonical when its flag is 1, or when all its bytes are
  zero (flag 0 over a zero payload). A boolean byte is canonical when it is 0 or 1.
  The offsets are those of the wire format of section 6.
\<close>

definition canonical_optional :: "u8 list \<Rightarrow> bool" where
  "canonical_optional slot = (le_Uint32 slot = 1 \<or> slot = replicate (length slot) 0)"

definition canonical_bool :: "u8 \<Rightarrow> bool" where
  "canonical_bool b = (b = 0 \<or> b = 1)"

definition canonical_Mint :: "u8 list \<Rightarrow> bool" where
  "canonical_Mint buf =
     (canonical_optional (take 36 buf) \<and> canonical_bool (buf ! 45) \<and>
      canonical_optional (take 36 (drop 46 buf)))"

definition canonical_Account :: "u8 list \<Rightarrow> bool" where
  "canonical_Account buf =
     (canonical_optional (take 36 (drop 72 buf)) \<and>
      canonical_optional (take 12 (drop 109 buf)) \<and>
      canonical_optional (take 36 (drop 129 buf)))"

definition canonical_Multisig :: "u8 list \<Rightarrow> bool" where
  "canonical_Multisig buf = canonical_bool (buf ! 2)"

text \<open>
  The wire format as section 6 of the specification words it, to compare the marshal
  methods with: an optional field is a flag of 1 and the payload when present, a flag
  of 0 and as many zero bytes as the payload has when absent.
\<close>

definition spec_encodeOptional :: "nat \<Rightarrow> ('a \<Rightarrow> u8 list) \<Rightarrow> 'a option \<Rightarrow> u8 list" where
  "spec_encodeOptional size_of payload x =
     (case x of
        None \<Rightarrow> le_PutUint32 0 @ replicate size_of 0
      | Some v \<Rightarrow> le_PutUint32 1 @ payload v)"

definition spec_Mint_bytes :: "Mint \<Rightarrow> u8 list" where
  "spec_Mint_bytes mint =
     spec_encodeOptional 32 PublicKey_bytes (MintAuthority mint) @
     le_PutUint64 (Supply mint) @
     [Decimals mint] @
     [if Mint.IsInitialized mint then 1 else 0] @
     spec_encodeOptional 32 PublicKey_bytes (FreezeAuthority mint)"

definition spec_Account_bytes :: "Account \<Rightarrow> u8 list" where
  "spec_Account_bytes account =
     PublicKey_bytes (Mint account) @
     PublicKey_bytes (Owner account) @
     le_PutUint64 (Amount account) @
     spec_encodeOptional 32 PublicKey_bytes (Delegate account) @
     [State account] @
     spec_encodeOptional 8 le_PutUint64 (IsNative account) @
     le_PutUint64 (DelegatedAmount account) @
     spec_encodeOptional 32 PublicKey_bytes (CloseAuthority account)"

section \<open>Lemmas\<close>

subsection \<open>Keys and little-endian integers\<close>

lemma PublicKey_bytes_length [simp]: "length (PublicKey_bytes k) = 32"
  using Rep_PublicKey [of k] by (simp add: PublicKey_bytes_def)

lemma PublicKey_bytes_FromBytes:
  "PublicKey_bytes (PublicKeyFromBytes bs) = take 32 bs @ replicate (32 - length bs) 0"
  by (simp add: PublicKey_bytes_def PublicKeyFromBytes_def Abs_PublicKey_inverse)

lemma PublicKey_bytes_FromBytes_32 [simp]:
  "length bs = 32 \<Longrightarrow> PublicKey_bytes (PublicKeyFromBytes bs) = bs"
  by (simp add: PublicKey_bytes_FromBytes)

lemma PublicKeyFromBytes_bytes [simp]: "PublicKeyFromBytes (PublicKey_bytes k) = k"
  using Rep_PublicKey [of k] by (simp add: PublicKey_bytes_def PublicKeyFromBytes_def Rep_PublicKey_inverse)

lemma PublicKey_eq_iff: "k = k' \<longleftrightarrow> PublicKey_bytes k = PublicKey_bytes k'"
  by (simp add: PublicKey_bytes_def Rep_PublicKey_inject)

lemma PublicKey_bytes_zero [simp]: "PublicKey_bytes zeroPublicKey = replicate 32 0"
  by (simp add: PublicKey_bytes_def zeroPublicKey_def Abs_PublicKey_inverse)

lemma le_bytes_numeral:
  "le_bytes (numeral k) v = of_nat (v mod 256) # le_bytes (pred_numeral k) (v div 256)"
proof -
  have "le_bytes (numeral k) v = le_bytes (Suc (pred_numeral k)) v"
    by (simp only: numeral_eq_Suc)
  then show ?thesis by (simp only: le_bytes.simps)
qed

lemma le_bytes_length [simp]: "length (le_bytes n v) = n"
  by (induction n arbitrary: v) simp_all

lemma le_bytes_value [simp]: "le_bytes (length bs) (le_value bs) = bs"
proof (induction bs)
  case Nil
  show ?case by simp
next
  case (Cons b bs)
  have "unat b < 256" using unsigned_less [of b] by simp
  then show ?case using Cons by simp
qed

lemma le_value_bound: "le_value bs < 256 ^ length bs"
proof (induction bs)
  case Nil
  show ?case by simp
next
  case (Cons b bs)
  have b: "unat b < 256" using unsigned_less [of b] by simp
  have "le_value bs + 1 \<le> 256 ^ length bs" using Cons by simp
  then have "256 * (le_value bs + 1) \<le> 256 * 256 ^ length bs" by simp
  with b show ?case by simp
qed

lemma le_value_bytes: "le_value (le_bytes n v) = v mod 256 ^ n"
proof (induction n arbitrary: v)
  case 0
  show ?case by simp
next
  case (Suc n)
  have "unat (of_nat (v mod 256) :: u8) = v mod 256"
    by (simp add: unat_of_nat)
  then show ?case using Suc
    by (simp add: mod_mult2_eq)
qed

lemma le_PutUint32_length [simp]: "length (le_PutUint32 v) = 4"
  by (simp add: le_PutUint32_def)

lemma le_PutUint64_length [simp]: "length (le_PutUint64 v) = 8"
  by (simp add: le_PutUint64_def le_bytes_numeral)

lemma le_PutUint32_Uint32: "length bs = 4 \<Longrightarrow> le_PutUint32 (le_Uint32 bs) = bs"
proof -
  assume l: "length bs = 4"
  have "le_value bs < 2 ^ 32" using le_value_bound [of bs] l by simp
  then have "unat (of_nat (le_value bs) :: u32) = le_value bs"
    by (simp add: unat_of_nat)
  then show ?thesis using l le_bytes_value [of bs]
    by (simp add: le_PutUint32_def le_Uint32_def)
qed

lemma le_PutUint64_Uint64: "length bs = 8 \<Longrightarrow> le_PutUint64 (le_Uint64 bs) = bs"
proof -
  assume l: "length bs = 8"
  have "le_value bs < 2 ^ 64" using le_value_bound [of bs] l by simp
  then have "unat (of_nat (le_value bs) :: u64) = le_value bs"
    by (simp add: unat_of_nat)
  then show ?thesis using l le_bytes_value [of bs]
    by (simp add: le_PutUint64_def le_Uint64_def)
qed

lemma le_Uint32_PutUint32 [simp]: "le_Uint32 (le_PutUint32 v) = v"
proof -
  have "unat v < 2 ^ 32" using unsigned_less [of v] by simp
  then show ?thesis
    by (simp add: le_Uint32_def le_PutUint32_def le_value_bytes)
qed

lemma le_Uint64_PutUint64 [simp]: "le_Uint64 (le_PutUint64 v) = v"
proof -
  have "unat v < 2 ^ 64" using unsigned_less [of v] by simp
  then show ?thesis
    by (simp add: le_Uint64_def le_PutUint64_def le_value_bytes)
qed

lemma le_PutUint32_0: "le_PutUint32 0 = [0, 0, 0, 0]"
  by (simp add: le_PutUint32_def le_bytes_numeral)

lemma le_PutUint32_1: "le_PutUint32 1 = [1, 0, 0, 0]"
  by (simp add: le_PutUint32_def le_bytes_numeral)

lemma le_PutUint64_0: "le_PutUint64 0 = [0, 0, 0, 0, 0, 0, 0, 0]"
  by (simp add: le_PutUint64_def le_bytes_numeral)

lemma le_bytes_zero: "le_bytes n 0 = replicate n 0"
  by (induction n) simp_all

lemma le_PutUint32_zero: "le_PutUint32 0 = replicate 4 0"
  by (simp add: le_PutUint32_def le_bytes_zero)

lemma le_PutUint64_zero: "le_PutUint64 0 = replicate 8 0"
  by (simp add: le_PutUint64_def le_bytes_zero)

lemma le_value_replicate_zero [simp]: "le_value (replicate n 0) = 0"
  by (induction n) simp_all

lemma replicate_numeral_Cons:
  "replicate (numeral k) x = x # replicate (pred_numeral k) x"
  by (simp only: numeral_eq_Suc replicate.simps)

subsection \<open>The read and write primitives\<close>

lemma and_then_Inr [simp]: "and_then (Inr v) f = f v"
  by (simp add: and_then_def)

lemma and_then_Inl [simp]: "and_then (Inl e) f = Inl e"
  by (simp add: and_then_def)

lemma ReadByte_ok: "p + 1 \<le> length d \<Longrightarrow>
    ReadByte \<lparr>data = d, pos = p\<rparr> = Inr (d ! p, \<lparr>data = d, pos = p + 1\<rparr>)"
  by (simp add: ReadByte_def Remaining_def)

lemma ReadByte_eof: "length d < p + 1 \<Longrightarrow> ReadByte \<lparr>data = d, pos = p\<rparr> = Inl UnexpectedEOF"
  by (simp add: ReadByte_def Remaining_def)

lemma ReadUint8_ok: "p + 1 \<le> length d \<Longrightarrow>
    ReadUint8 \<lparr>data = d, pos = p\<rparr> = Inr (d ! p, \<lparr>data = d, pos = p + 1\<rparr>)"
  by (simp add: ReadUint8_def ReadByte_ok)

lemma ReadUint8_eof: "length d < p + 1 \<Longrightarrow> ReadUint8 \<lparr>data = d, pos = p\<rparr> = Inl UnexpectedEOF"
  by (simp add: ReadUint8_def ReadByte_eof)

lemma ReadBool_ok: "p + 1 \<le> length d \<Longrightarrow>
    ReadBool \<lparr>data = d, pos = p\<rparr> = Inr (d ! p \<noteq> 0, \<lparr>data = d, pos = p + 1\<rparr>)"
  by (simp add: ReadBool_def ReadByte_ok Remaining_def)

lemma ReadBool_eof: "length d < p + 1 \<Longrightarrow> ReadBool \<lparr>data = d, pos = p\<rparr> = Inl UnexpectedEOF"
  by (simp add: ReadBool_def Remaining_def)

lemma ReadUint32_ok: "p + 4 \<le> length d \<Longrightarrow>
    ReadUint32 \<lparr>data = d, pos = p\<rparr> = Inr (le_Uint32 (drop p d), \<lparr>data = d, pos = p + 4\<rparr>)"
  by (simp add: ReadUint32_def Remaining_def)

lemma ReadUint32_eof: "length d < p + 4 \<Longrightarrow> ReadUint32 \<lparr>data = d, pos = p\<rparr> = Inl UnexpectedEOF"
  by (simp add: ReadUint32_def Remaining_def)

lemma ReadUint64_ok: "p + 8 \<le> length d \<Longrightarrow>
    ReadUint64 \<lparr>data = d, pos = p\<rparr> = Inr (le_Uint64 (drop p d), \<lparr>data = d, pos = p + 8\<rparr>)"
  by (simp add: ReadUint64_def Remaining_def)

lemma ReadUint64_eof: "length d < p + 8 \<Longrightarrow> ReadUint64 \<lparr>data = d, pos = p\<rparr> = Inl UnexpectedEOF"
  by (simp add: ReadUint64_def Remaining_def)

lemma ReadNBytes_ok: "p + n \<le> length d \<Longrightarrow>
    ReadNBytes n \<lparr>data = d, pos = p\<rparr> = Inr (take n (drop p d), \<lparr>data = d, pos = p + n\<rparr>)"
  by (simp add: ReadNBytes_def Remaining_def)

lemma ReadNBytes_eof: "length d < p + n \<Longrightarrow> 0 < n \<Longrightarrow>
    ReadNBytes n \<lparr>data = d, pos = p\<rparr> = Inl UnexpectedEOF"
proof -
  assume "length d < p + n" and "0 < n"
  then have "length d - p < n" and "n \<noteq> 0" by arith+
  then show ?thesis by (simp add: ReadNBytes_def Remaining_def)
qed

lemmas read_ok = ReadUint8_ok ReadBool_ok ReadUint32_ok ReadUint64_ok ReadNBytes_ok

lemmas read_eof = ReadUint8_eof ReadBool_eof ReadUint32_eof ReadUint64_eof ReadNBytes_eof

lemmas write_defs = WriteBytes_def WriteByte_def WriteUint8_def WriteBool_def WriteUint32_def
  WriteUint64_def

subsection \<open>What the Mint codec computes\<close>

lemma Mint_Unmarshal_ok:
  assumes "p + 82 \<le> length d"
  shows "Mint_UnmarshalWithDecoder m \<lparr>data = d, pos = p\<rparr> =
    Inr (\<lparr>MintAuthority =
            (if le_Uint32 (drop p d) = 1 then Some (PublicKeyFromBytes (take 32 (drop (p + 4) d)))
             else MintAuthority m),
          Supply = le_Uint64 (drop (p + 36) d),
          Decimals = d ! (p + 44),
          IsInitialized = (d ! (p + 45) \<noteq> 0),
          FreezeAuthority =
            (if le_Uint32 (drop (p + 46) d) = 1 then Some (PublicKeyFromBytes (take 32 (drop (p + 50) d)))
             else FreezeAuthority m)\<rparr>,
         \<lparr>data = d, pos = p + 82\<rparr>)"
  using assms
  by (cases m) (simp add: Mint_UnmarshalWithDecoder_def read_ok Let_def add.commute)

lemma Mint_Unmarshal_eof:
  assumes "length d < p + 82"
  shows "Mint_UnmarshalWithDecoder m \<lparr>data = d, pos = p\<rparr> = Inl UnexpectedEOF"
proof -
  consider "length d < p + 4" | "p + 4 \<le> length d" "length d < p + 36"
    | "p + 36 \<le> length d" "length d < p + 44"
    | "p + 44 \<le> length d" "length d < p + 45"
    | "p + 45 \<le> length d" "length d < p + 46"
    | "p + 46 \<le> length d" "length d < p + 50"
    | "p + 50 \<le> length d" "length d < p + 82"
    using assms by linarith
  then show ?thesis
    by cases (simp_all add: Mint_UnmarshalWithDecoder_def read_ok read_eof Let_def)
qed

lemma Mint_Marshal_eq:
  "Mint_MarshalWithEncoder m enc = Inr (enc @ spec_Mint_bytes m)"
  by (simp add: Mint_MarshalWithEncoder_def spec_Mint_bytes_def spec_encodeOptional_def
      write_defs split: option.split)

lemma spec_encodeOptional_key_length [simp]:
  "length (spec_encodeOptional 32 PublicKey_bytes x) = 36"
  by (simp add: spec_encodeOptional_def split: option.split)

lemma spec_encodeOptional_u64_length [simp]:
  "length (spec_encodeOptional 8 le_PutUint64 x) = 12"
  by (simp add: spec_encodeOptional_def split: option.split)

lemma spec_Mint_bytes_length: "length (spec_Mint_bytes m) = 82"
  by (simp add: spec_Mint_bytes_def)

subsection \<open>What the Account codec computes\<close>

lemma Account_Unmarshal_ok:
  assumes "p + 165 \<le> length d"
  shows "Account_UnmarshalWithDecoder m \<lparr>data = d, pos = p\<rparr> =
    Inr (\<lparr>Mint = PublicKeyFromBytes (take 32 (drop p d)),
          Owner = PublicKeyFromBytes (take 32 (drop (p + 32) d)),
          Amount = le_Uint64 (drop (p + 64) d),
          Delegate =
            (if le_Uint32 (drop (p + 72) d) = 1 then Some (PublicKeyFromBytes (take 32 (drop (p + 76) d)))
             else Delegate m),
          State = d ! (p + 108),
          IsNative =
            (if le_Uint32 (drop (p + 109) d) = 1 then Some (le_Uint64 (drop (p + 113) d))
             else IsNative m),
          DelegatedAmount = le_Uint64 (drop (p + 121) d),
          CloseAuthority =
            (if le_Uint32 (drop (p + 129) d) = 1 then Some (PublicKeyFromBytes (take 32 (drop (p + 133) d)))
             else CloseAuthority m)\<rparr>,
         \<lparr>data = d, pos = p + 165\<rparr>)"
  using assms
  by (cases m) (simp add: Account_UnmarshalWithDecoder_def read_ok Let_def add.commute)

lemma Account_Unmarshal_eof:
  assumes "length d < p + 165"
  shows "Account_UnmarshalWithDecoder m \<lparr>data = d, pos = p\<rparr> = Inl UnexpectedEOF"
proof -
  consider "length d < p + 32" | "p + 32 \<le> length d" "length d < p + 64"
    | "p + 64 \<le> length d" "length d < p + 72"
    | "p + 72 \<le> length d" "length d < p + 76"
    | "p + 76 \<le> length d" "length d < p + 108"
    | "p + 108 \<le> length d" "length d < p + 109"
    | "p + 109 \<le> length d" "length d < p + 113"
    | "p + 113 \<le> length d" "length d < p + 121"
    | "p + 121 \<le> length d" "length d < p + 129"
    | "p + 129 \<le> length d" "length d < p + 133"
    | "p + 133 \<le> length d" "length d < p + 165"
    using assms by linarith
  then show ?thesis
    by cases (simp_all add: Account_UnmarshalWithDecoder_def read_ok read_eof Let_def)
qed

lemma Account_Marshal_eq:
  "Account_MarshalWithEncoder m enc = Inr (enc @ spec_Account_bytes m)"
  by (simp add: Account_MarshalWithEncoder_def spec_Account_bytes_def spec_encodeOptional_def
      write_defs le_PutUint64_zero split: option.split)

lemma spec_Account_bytes_length: "length (spec_Account_bytes m) = 165"
  by (simp add: spec_Account_bytes_def)

subsection \<open>Decoding a whole buffer into the zero value\<close>

lemma Mint_decode_ok:
  assumes "82 \<le> length buf"
  shows "Mint_decode buf =
    Inr (\<lparr>MintAuthority =
            (if le_Uint32 buf = 1 then Some (PublicKeyFromBytes (take 32 (drop 4 buf))) else None),
          Supply = le_Uint64 (drop 36 buf),
          Decimals = buf ! 44,
          IsInitialized = (buf ! 45 \<noteq> 0),
          FreezeAuthority =
            (if le_Uint32 (drop 46 buf) = 1 then Some (PublicKeyFromBytes (take 32 (drop 50 buf)))
             else None)\<rparr>,
         \<lparr>data = buf, pos = 82\<rparr>)"
  using assms Mint_Unmarshal_ok [of 0 buf Mint_zero]
  by (simp add: Mint_decode_def NewBinDecoder_def Mint_zero_def)

lemma Account_decode_ok:
  assumes "165 \<le> length buf"
  shows "Account_decode buf =
    Inr (\<lparr>Mint = PublicKeyFromBytes (take 32 buf),
          Owner = PublicKeyFromBytes (take 32 (drop 32 buf)),
          Amount = le_Uint64 (drop 64 buf),
          Delegate =
            (if le_Uint32 (drop 72 buf) = 1 then Some (PublicKeyFromBytes (take 32 (drop 76 buf)))
             else None),
          State = buf ! 108,
          IsNative =
            (if le_Uint32 (drop 109 buf) = 1 then Some (le_Uint64 (drop 113 buf)) else None),
          DelegatedAmount = le_Uint64 (drop 121 buf),
          CloseAuthority =
            (if le_Uint32 (drop 129 buf) = 1 then Some (PublicKeyFromBytes (take 32 (drop 133 buf)))
             else None)\<rparr>,
         \<lparr>data = buf, pos = 165\<rparr>)"
  using assms Account_Unmarshal_ok [of 0 buf Account_zero]
  by (simp add: Account_decode_def NewBinDecoder_def Account_zero_def)

subsection \<open>Re-encoding one slot\<close>

lemma le_Uint32_take: "le_Uint32 (take 4 s) = le_Uint32 s"
  by (simp add: le_Uint32_def)

lemma le_Uint64_take: "le_Uint64 (take 8 s) = le_Uint64 s"
  by (simp add: le_Uint64_def)

lemma flag_one_bytes:
  assumes "4 \<le> length s" and "le_Uint32 s = 1"
  shows "take 4 s = le_PutUint32 1"
proof -
  have "le_PutUint32 (le_Uint32 (take 4 s)) = take 4 s"
    using assms(1) by (simp add: le_PutUint32_Uint32)
  then show ?thesis
    using assms(2) by (simp add: le_Uint32_take)
qed

lemma optional_key_slot:
  assumes "length s = 36"
  shows "(spec_encodeOptional 32 PublicKey_bytes
            (if le_Uint32 s = 1 then Some (PublicKeyFromBytes (drop 4 s)) else None) = s)
         = canonical_optional s"
proof (cases "le_Uint32 s = 1")
  case True
  have "take 4 s @ drop 4 s = s" by simp
  moreover have "take 4 s = le_PutUint32 1"
    using assms True by (simp add: flag_one_bytes)
  ultimately have "le_PutUint32 1 @ drop 4 s = s" by simp
  then show ?thesis
    using assms True by (simp add: spec_encodeOptional_def canonical_optional_def)
next
  case False
  have "le_PutUint32 0 @ replicate 32 0 = (replicate 36 0 :: u8 list)"
    by (simp add: le_PutUint32_zero flip: replicate_add)
  then show ?thesis
    using assms False by (auto simp add: spec_encodeOptional_def canonical_optional_def)
qed

lemma optional_u64_slot:
  assumes "length s = 12"
  shows "(spec_encodeOptional 8 le_PutUint64
            (if le_Uint32 s = 1 then Some (le_Uint64 (drop 4 s)) else None) = s)
         = canonical_optional s"
proof (cases "le_Uint32 s = 1")
  case True
  have "take 4 s @ drop 4 s = s" by simp
  moreover have "take 4 s = le_PutUint32 1"
    using assms True by (simp add: flag_one_bytes)
  moreover have "le_PutUint64 (le_Uint64 (drop 4 s)) = drop 4 s"
    using assms by (simp add: le_PutUint64_Uint64)
  ultimately have "le_PutUint32 1 @ le_PutUint64 (le_Uint64 (drop 4 s)) = s" by simp
  then show ?thesis
    using assms True by (simp add: spec_encodeOptional_def canonical_optional_def)
next
  case False
  have "le_PutUint32 0 @ replicate 8 0 = (replicate 12 0 :: u8 list)"
    by (simp add: le_PutUint32_zero flip: replicate_add)
  then show ?thesis
    using assms False by (auto simp add: spec_encodeOptional_def canonical_optional_def)
qed

lemma bool_byte_roundtrip: "((if b \<noteq> 0 then 1 else 0) = (b :: u8)) = canonical_bool b"
  by (auto simp add: canonical_bool_def)

lemma drop_step: "drop p xs = take n (drop p xs) @ drop (p + n) xs"
proof -
  have "take n (drop p xs) @ drop (p + n) xs = take n (drop p xs) @ drop n (drop p xs)"
    by (simp add: add.commute)
  also have "\<dots> = drop p xs"
    by (rule append_take_drop_id)
  finally show ?thesis by (rule sym)
qed

lemma drop_nth_step: "p < length xs \<Longrightarrow> drop p xs = xs ! p # drop (Suc p) xs"
  by (simp add: Cons_nth_drop_Suc)

subsection \<open>Re-encoding a Mint buffer\<close>

lemma Mint_buffer_split:
  assumes "length buf = 82"
  shows "buf = take 36 buf @ take 8 (drop 36 buf) @ [buf ! 44] @ [buf ! 45] @ take 36 (drop 46 buf)"
proof -
  have "buf = take 36 buf @ drop 36 buf" by simp
  also have "drop 36 buf = take 8 (drop 36 buf) @ drop 44 buf"
    using drop_step [of 36 buf 8] by simp
  also have "drop 44 buf = buf ! 44 # drop 45 buf"
    using assms drop_nth_step [of 44 buf] by simp
  also have "drop 45 buf = buf ! 45 # drop 46 buf"
    using assms drop_nth_step [of 45 buf] by simp
  also have "drop 46 buf = take 36 (drop 46 buf)"
    using assms by simp
  finally show ?thesis by simp
qed

lemma Mint_reencode_eq:
  assumes "length buf = 82"
  shows "Mint_reencode buf =
    Inr (spec_encodeOptional 32 PublicKey_bytes
           (if le_Uint32 (take 36 buf) = 1 then Some (PublicKeyFromBytes (drop 4 (take 36 buf)))
            else None) @
         take 8 (drop 36 buf) @ [buf ! 44] @ [if buf ! 45 \<noteq> 0 then 1 else 0] @
         spec_encodeOptional 32 PublicKey_bytes
           (if le_Uint32 (take 36 (drop 46 buf)) = 1
            then Some (PublicKeyFromBytes (drop 4 (take 36 (drop 46 buf)))) else None))"
proof -
  have f1: "le_Uint32 (take 36 buf) = le_Uint32 buf"
    using le_Uint32_take [of "take 36 buf"] le_Uint32_take [of buf] by simp
  have f2: "le_Uint32 (take 36 (drop 46 buf)) = le_Uint32 (drop 46 buf)"
    using le_Uint32_take [of "take 36 (drop 46 buf)"] le_Uint32_take [of "drop 46 buf"] by simp
  have p1: "drop 4 (take 36 buf) = take 32 (drop 4 buf)"
    by (simp add: drop_take)
  have p2: "drop 4 (take 36 (drop 46 buf)) = take 32 (drop 50 buf)"
    by (simp add: drop_take)
  have s: "le_PutUint64 (le_Uint64 (drop 36 buf)) = take 8 (drop 36 buf)"
    using assms le_PutUint64_Uint64 [of "take 8 (drop 36 buf)"] by (simp add: le_Uint64_take)
  show ?thesis
    using assms
    by (simp add: Mint_reencode_def Mint_decode_ok Mint_encode_def Mint_Marshal_eq
        spec_Mint_bytes_def f1 f2 p1 p2 s)
qed

lemma Mint_reencode_iff:
  assumes "length buf = 82"
  shows "(Mint_reencode buf = Inr buf) = canonical_Mint buf"
proof -
  define s1 where "s1 = take 36 buf"
  define c where "c = take 8 (drop 36 buf)"
  define s2 where "s2 = take 36 (drop 46 buf)"
  define e1 where "e1 = spec_encodeOptional 32 PublicKey_bytes
    (if le_Uint32 s1 = 1 then Some (PublicKeyFromBytes (drop 4 s1)) else None)"
  define e2 where "e2 = spec_encodeOptional 32 PublicKey_bytes
    (if le_Uint32 s2 = 1 then Some (PublicKeyFromBytes (drop 4 s2)) else None)"
  define y where "y = (if buf ! 45 \<noteq> 0 then 1 else 0 :: u8)"
  have l1: "length s1 = 36" and l2: "length s2 = 36"
    using assms by (simp_all add: s1_def s2_def)
  have le1: "length e1 = 36" and le2: "length e2 = 36"
    by (simp_all add: e1_def e2_def)
  have out: "Mint_reencode buf = Inr (e1 @ c @ [buf ! 44] @ [y] @ e2)"
    using Mint_reencode_eq [OF assms] by (simp add: s1_def s2_def c_def e1_def e2_def y_def)
  have inp: "buf = s1 @ c @ [buf ! 44] @ [buf ! 45] @ s2"
    using Mint_buffer_split [OF assms] by (simp add: s1_def s2_def c_def)
  have "(Mint_reencode buf = Inr buf) = (e1 @ c @ [buf ! 44] @ [y] @ e2 = buf)"
    using out by simp
  also have "\<dots> = (e1 @ c @ [buf ! 44] @ [y] @ e2 = s1 @ c @ [buf ! 44] @ [buf ! 45] @ s2)"
    using inp by simp
  also have "\<dots> = (e1 = s1 \<and> y = buf ! 45 \<and> e2 = s2)"
    using l1 le1 by simp
  also have "\<dots> = (canonical_optional s1 \<and> canonical_bool (buf ! 45) \<and> canonical_optional s2)"
    using optional_key_slot [OF l1] optional_key_slot [OF l2] bool_byte_roundtrip [of "buf ! 45"]
    by (simp add: e1_def e2_def y_def)
  finally show ?thesis
    by (simp add: canonical_Mint_def s1_def s2_def)
qed

subsection \<open>Re-encoding an Account buffer\<close>

lemma Account_buffer_split:
  assumes "length buf = 165"
  shows "buf = take 32 buf @ take 32 (drop 32 buf) @ take 8 (drop 64 buf) @
    take 36 (drop 72 buf) @ [buf ! 108] @ take 12 (drop 109 buf) @ take 8 (drop 121 buf) @
    take 36 (drop 129 buf)"
proof -
  have "buf = take 32 buf @ drop 32 buf" by simp
  also have "drop 32 buf = take 32 (drop 32 buf) @ drop 64 buf"
    using drop_step [of 32 buf 32] by simp
  also have "drop 64 buf = take 8 (drop 64 buf) @ drop 72 buf"
    using drop_step [of 64 buf 8] by simp
  also have "drop 72 buf = take 36 (drop 72 buf) @ drop 108 buf"
    using drop_step [of 72 buf 36] by simp
  also have "drop 108 buf = buf ! 108 # drop 109 buf"
    using assms drop_nth_step [of 108 buf] by simp
  also have "drop 109 buf = take 12 (drop 109 buf) @ drop 121 buf"
    using drop_step [of 109 buf 12] by simp
  also have "drop 121 buf = take 8 (drop 121 buf) @ drop 129 buf"
    using drop_step [of 121 buf 8] by simp
  also have "drop 129 buf = take 36 (drop 129 buf)"
    using assms by simp
  finally show ?thesis by simp
qed

lemma Account_reencode_eq:
  assumes "length buf = 165"
  shows "Account_reencode buf =
    Inr (take 32 buf @ take 32 (drop 32 buf) @ take 8 (drop 64 buf) @
         spec_encodeOptional 32 PublicKey_bytes
           (if le_Uint32 (take 36 (drop 72 buf)) = 1
            then Some (PublicKeyFromBytes (drop 4 (take 36 (drop 72 buf)))) else None) @
         [buf ! 108] @
         spec_encodeOptional 8 le_PutUint64
           (if le_Uint32 (take 12 (drop 109 buf)) = 1
            then Some (le_Uint64 (drop 4 (take 12 (drop 109 buf)))) else None) @
         take 8 (drop 121 buf) @
         spec_encodeOptional 32 PublicKey_bytes
           (if le_Uint32 (take 36 (drop 129 buf)) = 1
            then Some (PublicKeyFromBytes (drop 4 (take 36 (drop 129 buf)))) else None))"
proof -
  have f1: "le_Uint32 (take 36 (drop 72 buf)) = le_Uint32 (drop 72 buf)"
    using le_Uint32_take [of "take 36 (drop 72 buf)"] le_Uint32_take [of "drop 72 buf"] by simp
  have f2: "le_Uint32 (take 12 (drop 109 buf)) = le_Uint32 (drop 109 buf)"
    using le_Uint32_take [of "take 12 (drop 109 buf)"] le_Uint32_take [of "drop 109 buf"] by simp
  have f3: "le_Uint32 (take 36 (drop 129 buf)) = le_Uint32 (drop 129 buf)"
    using le_Uint32_take [of "take 36 (drop 129 buf)"] le_Uint32_take [of "drop 129 buf"] by simp
  have p1: "drop 4 (take 36 (drop 72 buf)) = take 32 (drop 76 buf)"
    by (simp add: drop_take)
  have p2: "le_Uint64 (drop 4 (take 12 (drop 109 buf))) = le_Uint64 (drop 113 buf)"
    using le_Uint64_take [of "drop 4 (take 12 (drop 109 buf))"] le_Uint64_take [of "drop 113 buf"]
    by (simp add: drop_take)
  have p3: "drop 4 (take 36 (drop 129 buf)) = take 32 (drop 133 buf)"
    by (simp add: drop_take)
  have a: "le_PutUint64 (le_Uint64 (drop 64 buf)) = take 8 (drop 64 buf)"
    using assms le_PutUint64_Uint64 [of "take 8 (drop 64 buf)"] by (simp add: le_Uint64_take)
  have da: "le_PutUint64 (le_Uint64 (drop 121 buf)) = take 8 (drop 121 buf)"
    using assms le_PutUint64_Uint64 [of "take 8 (drop 121 buf)"] by (simp add: le_Uint64_take)
  have k1: "PublicKey_bytes (PublicKeyFromBytes (take 32 buf)) = take 32 buf"
    using assms by simp
  have k2: "PublicKey_bytes (PublicKeyFromBytes (take 32 (drop 32 buf))) = take 32 (drop 32 buf)"
    using assms by simp
  show ?thesis
    using assms
    by (simp add: Account_reencode_def Account_decode_ok Account_encode_def Account_Marshal_eq
        spec_Account_bytes_def f1 f2 f3 p1 p2 p3 a da k1 k2)
qed

lemma Account_reencode_iff:
  assumes "length buf = 165"
  shows "(Account_reencode buf = Inr buf) = canonical_Account buf"
proof -
  define k1 where "k1 = take 32 buf"
  define k2 where "k2 = take 32 (drop 32 buf)"
  define a where "a = take 8 (drop 64 buf)"
  define s1 where "s1 = take 36 (drop 72 buf)"
  define s2 where "s2 = take 12 (drop 109 buf)"
  define da where "da = take 8 (drop 121 buf)"
  define s3 where "s3 = take 36 (drop 129 buf)"
  define e1 where "e1 = spec_encodeOptional 32 PublicKey_bytes
    (if le_Uint32 s1 = 1 then Some (PublicKeyFromBytes (drop 4 s1)) else None)"
  define e2 where "e2 = spec_encodeOptional 8 le_PutUint64
    (if le_Uint32 s2 = 1 then Some (le_Uint64 (drop 4 s2)) else None)"
  define e3 where "e3 = spec_encodeOptional 32 PublicKey_bytes
    (if le_Uint32 s3 = 1 then Some (PublicKeyFromBytes (drop 4 s3)) else None)"
  have l1: "length s1 = 36" and l2: "length s2 = 12" and l3: "length s3 = 36"
    using assms by (simp_all add: s1_def s2_def s3_def)
  have le1: "length e1 = 36" and le2: "length e2 = 12" and le3: "length e3 = 36"
    by (simp_all add: e1_def e2_def e3_def)
  have out: "Account_reencode buf = Inr (k1 @ k2 @ a @ e1 @ [buf ! 108] @ e2 @ da @ e3)"
    using Account_reencode_eq [OF assms]
    by (simp add: k1_def k2_def a_def s1_def s2_def da_def s3_def e1_def e2_def e3_def)
  have inp: "buf = k1 @ k2 @ a @ s1 @ [buf ! 108] @ s2 @ da @ s3"
    using Account_buffer_split [OF assms]
    by (simp add: k1_def k2_def a_def s1_def s2_def da_def s3_def)
  have "(Account_reencode buf = Inr buf) = (k1 @ k2 @ a @ e1 @ [buf ! 108] @ e2 @ da @ e3 = buf)"
    using out by simp
  also have "\<dots> = (k1 @ k2 @ a @ e1 @ [buf ! 108] @ e2 @ da @ e3 =
      k1 @ k2 @ a @ s1 @ [buf ! 108] @ s2 @ da @ s3)"
    using inp by simp
  also have "\<dots> = (e1 = s1 \<and> e2 = s2 \<and> e3 = s3)"
    using l1 le1 l2 le2 by simp
  also have "\<dots> = (canonical_optional s1 \<and> canonical_optional s2 \<and> canonical_optional s3)"
    using optional_key_slot [OF l1] optional_u64_slot [OF l2] optional_key_slot [OF l3]
    by (simp add: e1_def e2_def e3_def)
  finally show ?thesis
    by (simp add: canonical_Account_def s1_def s2_def s3_def)
qed

subsection \<open>Re-encoding a Multisig buffer\<close>

lemma Encode_PublicKeys_eq:
  "Encode_PublicKeys ks enc = Inr (enc @ concat (map PublicKey_bytes ks))"
  by (induction ks arbitrary: enc) (simp_all add: WriteBytes_def)

lemma Decode_PublicKeys_ok:
  assumes "p + 32 * n \<le> length d"
  shows "\<exists>ks. Decode_PublicKeys n \<lparr>data = d, pos = p\<rparr> = Inr (ks, \<lparr>data = d, pos = p + 32 * n\<rparr>) \<and>
    length ks = n \<and> concat (map PublicKey_bytes ks) = take (32 * n) (drop p d)"
  using assms
proof (induction n arbitrary: p)
  case 0
  show ?case by simp
next
  case (Suc n)
  have r: "ReadNBytes 32 \<lparr>data = d, pos = p\<rparr> = Inr (take 32 (drop p d), \<lparr>data = d, pos = p + 32\<rparr>)"
    using Suc.prems by (simp add: ReadNBytes_ok)
  have "(p + 32) + 32 * n \<le> length d"
    using Suc.prems by simp
  then obtain ks where ks:
    "Decode_PublicKeys n \<lparr>data = d, pos = p + 32\<rparr> = Inr (ks, \<lparr>data = d, pos = (p + 32) + 32 * n\<rparr>)"
    "length ks = n" "concat (map PublicKey_bytes ks) = take (32 * n) (drop (p + 32) d)"
    using Suc.IH [of "p + 32"] by blast
  have v: "PublicKey_bytes (PublicKeyFromBytes (take 32 (drop p d))) = take 32 (drop p d)"
    using Suc.prems by simp
  have t: "take (32 * Suc n) (drop p d) = take 32 (drop p d) @ take (32 * n) (drop (p + 32) d)"
    using take_add [of 32 "32 * n" "drop p d"] by (simp add: add.commute)
  show ?case
    using r ks v t by (simp add: add.assoc)
qed

lemma Multisig_reencode_eq:
  assumes "length buf = 3 + 32 * n"
  shows "Multisig_reencode n buf =
    Inr ([buf ! 0, buf ! 1, if buf ! 2 \<noteq> 0 then 1 else 0] @ drop 3 buf)"
proof -
  have "3 + 32 * n \<le> length buf"
    using assms by simp
  then obtain ks where
    "Decode_PublicKeys n \<lparr>data = buf, pos = 3\<rparr> = Inr (ks, \<lparr>data = buf, pos = 3 + 32 * n\<rparr>)"
    "concat (map PublicKey_bytes ks) = take (32 * n) (drop 3 buf)"
    using Decode_PublicKeys_ok [of 3 n buf] by blast
  then have ks:
    "Decode_PublicKeys n \<lparr>data = buf, pos = Suc (Suc (Suc 0))\<rparr> =
       Inr (ks, \<lparr>data = buf, pos = 3 + 32 * n\<rparr>)"
    "concat (map PublicKey_bytes ks) = drop 3 buf"
    using assms by (simp_all add: numeral_3_eq_3)
  have r0: "ReadUint8 \<lparr>data = buf, pos = 0\<rparr> = Inr (buf ! 0, \<lparr>data = buf, pos = Suc 0\<rparr>)"
    using assms ReadUint8_ok [of 0 buf] by simp
  have r1: "ReadUint8 \<lparr>data = buf, pos = Suc 0\<rparr> =
      Inr (buf ! Suc 0, \<lparr>data = buf, pos = Suc (Suc 0)\<rparr>)"
    using assms ReadUint8_ok [of "Suc 0" buf] by simp
  have r2: "ReadBool \<lparr>data = buf, pos = Suc (Suc 0)\<rparr> =
      Inr (buf ! Suc (Suc 0) \<noteq> 0, \<lparr>data = buf, pos = Suc (Suc (Suc 0))\<rparr>)"
    using assms ReadBool_ok [of "Suc (Suc 0)" buf] by simp
  show ?thesis
    by (simp add: Multisig_reencode_def Multisig_decode_def Multisig_encode_def
        Multisig_UnmarshalWithDecoder_def Multisig_MarshalWithEncoder_def NewBinDecoder_def
        r0 r1 r2 ks write_defs Let_def Encode_PublicKeys_eq numeral_2_eq_2)
qed

lemma Multisig_reencode_iff:
  assumes "length buf = 3 + 32 * n"
  shows "(Multisig_reencode n buf = Inr buf) = canonical_Multisig buf"
proof -
  have "take 3 buf = [buf ! 0, buf ! 1, buf ! 2]"
    using assms by (simp add: numeral_3_eq_3 numeral_2_eq_2 take_Suc_conv_app_nth)
  then have inp: "buf = [buf ! 0, buf ! 1, buf ! 2] @ drop 3 buf"
    using append_take_drop_id [of 3 buf] by simp
  have "(Multisig_reencode n buf = Inr buf) =
      ([buf ! 0, buf ! 1, if buf ! 2 \<noteq> 0 then 1 else 0] @ drop 3 buf = buf)"
    using Multisig_reencode_eq [OF assms] by simp
  also have "\<dots> = ([buf ! 0, buf ! 1, if buf ! 2 \<noteq> 0 then 1 else 0] @ drop 3 buf =
      [buf ! 0, buf ! 1, buf ! 2] @ drop 3 buf)"
    using inp by simp
  also have "\<dots> = canonical_bool (buf ! 2)"
    using bool_byte_roundtrip [of "buf ! 2"] by simp
  finally show ?thesis
    by (simp add: canonical_Multisig_def)
qed

subsection \<open>The builders: slots and the derivation block\<close>

lemma index_get_in [simp]: "i < length xs \<Longrightarrow> index_get xs i = Inr (xs ! i)"
  by (simp add: index_get_def)

lemma index_get_out [simp]: "\<not> i < length xs \<Longrightarrow> index_get xs i = Inl IndexOutOfRange"
  by (simp add: index_get_def)

lemma index_set_in [simp]: "i < length xs \<Longrightarrow> index_set xs i v = Inr (xs[i := v])"
  by (simp add: index_set_def)

lemma index_set_out [simp]: "\<not> i < length xs \<Longrightarrow> index_set xs i v = Inl IndexOutOfRange"
  by (simp add: index_set_def)

lemma deref_Some [simp]: "deref (Some v) = Inr v"
  by (simp add: deref_def)

lemma deref_None [simp]: "deref None = Inl NilDereference"
  by (simp add: deref_def)

lemmas Create_slot_defs = Create_SetPayer_def Create_GetPayer_def
  Create_SetAssociatedTokenAccount_def Create_GetAssociatedTokenAccount_def
  Create_SetWallet_def Create_GetWallet_def Create_SetMint_def Create_GetMint_def
  Create_SetTokenProgramID_def Create_GetTokenProgramID_def

lemmas CreateIdempotent_slot_defs = CreateIdempotent_SetPayer_def CreateIdempotent_GetPayer_def
  CreateIdempotent_SetAssociatedTokenAccount_def CreateIdempotent_GetAssociatedTokenAccount_def
  CreateIdempotent_SetWallet_def CreateIdempotent_GetWallet_def CreateIdempotent_SetMint_def
  CreateIdempotent_GetMint_def CreateIdempotent_SetTokenProgramID_def
  CreateIdempotent_GetTokenProgramID_def

text \<open>The two builders are the same code under two names.\<close>

lemma CreateIdempotent_derive_eq:
  "CreateIdempotent_derive_if_unset env inst = Create_derive_if_unset env inst"
  unfolding CreateIdempotent_derive_if_unset_def Create_derive_if_unset_def
    Create_slot_defs CreateIdempotent_slot_defs
  by (rule refl)

lemma CreateIdempotent_Validate_eq:
  "CreateIdempotent_Validate env inst = Create_Validate env inst"
  by (simp add: CreateIdempotent_Validate_def Create_Validate_def CreateIdempotent_derive_eq)

lemma NewCreateIdempotentInstructionBuilder_eq:
  "NewCreateIdempotentInstructionBuilder env = NewCreateInstructionBuilder env"
  by (simp add: NewCreateIdempotentInstructionBuilder_def NewCreateInstructionBuilder_def)

text \<open>The derivation block, case by case.\<close>

lemma Create_derive_kept:
  assumes "1 < length inst" and "\<not> slot_unset (inst ! 1)"
  shows "Create_derive_if_unset env inst = Inr inst"
  using assms by (simp add: Create_derive_if_unset_def slot_unset_def)

lemma Create_derive_set:
  assumes "5 < length inst" and "slot_unset (inst ! 1)"
    and "inst ! 2 = Some wallet" and "inst ! 3 = Some mint" and "inst ! 5 = Some tokenProgram"
  shows "Create_derive_if_unset env inst =
    Inr (inst[1 := Some (WRITE (Meta (fst (FindAssociatedTokenAddress env
      (PublicKey wallet) (PublicKey mint) (PublicKey tokenProgram)))))])"
  using assms
  by (simp add: Create_derive_if_unset_def slot_unset_def Create_slot_defs split: prod.split)

lemma Create_derive_cases:
  assumes "Create_derive_if_unset env inst = Inr inst'"
  shows "(1 < length inst \<and> \<not> slot_unset (inst ! 1) \<and> inst' = inst) \<or>
    (\<exists>wallet mint tokenProgram. 5 < length inst \<and> slot_unset (inst ! 1) \<and>
       inst ! 2 = Some wallet \<and> inst ! 3 = Some mint \<and> inst ! 5 = Some tokenProgram \<and>
       inst' = inst[1 := Some (WRITE (Meta (fst (FindAssociatedTokenAddress env
         (PublicKey wallet) (PublicKey mint) (PublicKey tokenProgram)))))])"
proof (cases "1 < length inst")
  case False
  then show ?thesis
    using assms by (simp add: Create_derive_if_unset_def)
next
  case long: True
  show ?thesis
  proof (cases "slot_unset (inst ! 1)")
    case False
    then show ?thesis
      using assms long by (simp add: Create_derive_kept)
  next
    case True
    have two: "2 < length inst"
      using assms long True
      by (cases "2 < length inst")
        (simp_all add: Create_derive_if_unset_def slot_unset_def Create_slot_defs)
    obtain wallet where w: "inst ! 2 = Some wallet"
      using assms long True two
      by (cases "inst ! 2")
        (simp_all add: Create_derive_if_unset_def slot_unset_def Create_slot_defs)
    have three: "3 < length inst"
      using assms long True two w
      by (cases "3 < length inst")
        (simp_all add: Create_derive_if_unset_def slot_unset_def Create_slot_defs)
    obtain mint where m: "inst ! 3 = Some mint"
      using assms long True two w three
      by (cases "inst ! 3")
        (simp_all add: Create_derive_if_unset_def slot_unset_def Create_slot_defs)
    have five: "5 < length inst"
      using assms long True two w three m
      by (cases "5 < length inst")
        (simp_all add: Create_derive_if_unset_def slot_unset_def Create_slot_defs)
    obtain tokenProgram where t: "inst ! 5 = Some tokenProgram"
      using assms long True two w three m five
      by (cases "inst ! 5")
        (simp_all add: Create_derive_if_unset_def slot_unset_def Create_slot_defs)
    have "inst' = inst[1 := Some (WRITE (Meta (fst (FindAssociatedTokenAddress env
         (PublicKey wallet) (PublicKey mint) (PublicKey tokenProgram)))))]"
      using assms Create_derive_set [OF five True w m t, of env] by simp
    then show ?thesis
      using five True w m t by blast
  qed
qed

lemma Create_derive_length:
  assumes "Create_derive_if_unset env inst = Inr inst'"
  shows "length inst' = length inst"
  using Create_derive_cases [OF assms] by auto

lemma Create_derive_frame:
  assumes "Create_derive_if_unset env inst = Inr inst'" and "i \<noteq> 1"
  shows "inst' ! i = inst ! i"
  using Create_derive_cases [OF assms(1)] assms(2) by auto

lemma Create_derive_slot1:
  assumes "Create_derive_if_unset env inst = Inr inst'"
  shows "1 < length inst' \<and> inst' ! 1 \<noteq> None"
  using Create_derive_cases [OF assms] by (auto simp add: slot_unset_def split: option.splits)


subsection \<open>The loop of Validate\<close>




subsection \<open>Build, Validate and ValidateAndBuild after the derivation block\<close>

lemma Create_Build_eq:
  assumes "Create_derive_if_unset env inst = Inr inst'"
  shows "Create_Build env inst =
    Inr (\<lparr>Impl = Impl_Create inst', TypeID = Instruction_Create env\<rparr>, inst')"
  using assms by (simp add: Create_Build_def)

lemma CreateIdempotent_Build_eq:
  assumes "Create_derive_if_unset env inst = Inr inst'"
  shows "CreateIdempotent_Build env inst =
    Inr (\<lparr>Impl = Impl_CreateIdempotent inst', TypeID = Instruction_CreateIdempotent env\<rparr>, inst')"
  using assms by (simp add: CreateIdempotent_Build_def CreateIdempotent_derive_eq)

lemma Create_Build_panic:
  assumes "Create_derive_if_unset env inst = Inl p"
  shows "Create_Build env inst = Inl p" and "CreateIdempotent_Build env inst = Inl p"
  using assms
  by (simp_all add: Create_Build_def CreateIdempotent_Build_def CreateIdempotent_derive_eq)

lemma Create_Validate_eq:
  assumes "Create_derive_if_unset env inst = Inr inst'"
  shows "Create_Validate env inst =
    Inr (case range_unset 0 inst' of Some accIndex \<Rightarrow> Some (MissingAccountRole accIndex)
         | None \<Rightarrow> None, inst')"
  using assms by (simp add: Create_Validate_def)





subsection \<open>The example environment\<close>

lemma key_of_bytes [simp]: "PublicKey_bytes (key_of b) = replicate 32 b"
  by (simp add: key_of_def)

lemma key_of_eq [simp]: "(key_of a = key_of b) = (a = b)"
  by (simp add: PublicKey_eq_iff)

lemma IsZero_key_of [simp]: "IsZero (key_of b) = (b = 0)"
  by (simp add: IsZero_def PublicKey_eq_iff)

lemma example_env_fields [simp]:
  "SystemProgramID example_env = key_of 0"
  "TokenProgramID example_env = key_of 6"
  "SysVarRentPubkey example_env = key_of 7"
  "ProgramID example_env = key_of 8"
  "Instruction_Create example_env = 0"
  "Instruction_CreateIdempotent example_env = 1"
  by (simp_all add: example_env_def)

lemma example_env_derive [simp]:
  "FindAssociatedTokenAddress example_env (key_of w) (key_of m) (key_of t) =
     (PublicKeyFromBytes [w, t, m, 8], 255, False)"
  by (simp add: FindAssociatedTokenAddress_def example_env_def)

lemma Meta_fields [simp]:
  "PublicKey (Meta k) = k" "PublicKey (WRITE a) = PublicKey a" "PublicKey (SIGNER a) = PublicKey a"
  by (simp_all add: Meta_def WRITE_def SIGNER_def)

lemma seven_slots:
  "(replicate 7 None)[4 := a, 5 := b, 6 := c] = [None, None, None, None, a, b, c]"
  by (simp add: eval_nat_numeral)

lemma NewCreateInstructionBuilder_slots:
  "NewCreateInstructionBuilder env =
     [None, None, None, None, Some (Meta (SystemProgramID env)),
      Some (Meta (TokenProgramID env)), Some (Meta (SysVarRentPubkey env))]"
  by (simp add: NewCreateInstructionBuilder_def seven_slots)

lemma update_slots:
  "[a0, a1, a2, a3, a4, a5, a6][0 := v] = [v, a1, a2, a3, a4, a5, a6]"
  "[a0, a1, a2, a3, a4, a5, a6][1 := v] = [a0, v, a2, a3, a4, a5, a6]"
  "[a0, a1, a2, a3, a4, a5, a6][2 := v] = [a0, a1, v, a3, a4, a5, a6]"
  "[a0, a1, a2, a3, a4, a5, a6][3 := v] = [a0, a1, a2, v, a4, a5, a6]"
  "[a0, a1, a2, a3, a4, a5, a6][5 := v] = [a0, a1, a2, a3, a4, v, a6]"
  by (simp_all add: eval_nat_numeral)

lemma NewCreateInstruction_slots:
  "NewCreateInstruction env payer wallet mint tokenProgramID =
     Inr [Some (SIGNER (WRITE (Meta payer))), None, Some (Meta wallet), Some (Meta mint),
          Some (Meta (SystemProgramID env)), Some (Meta tokenProgramID),
          Some (Meta (SysVarRentPubkey env))]"
  by (simp add: NewCreateInstruction_def NewCreateInstructionBuilder_slots Create_slot_defs
      update_slots)

section \<open>The claims\<close>

subsection \<open>Claim C1: decoding and encoding again\<close>

text \<open>
  C1, as the code has it. Decoding a buffer of a record's exact size (82 bytes for a
  Mint, 165 for an Account, 3 + 32 * MAX_SIGNERS for a Multisig) and encoding the
  record again gives the buffer back byte for byte exactly when the buffer is
  canonical: every presence flag is 1 or stands over an all-zero slot, and every
  boolean byte is 0 or 1. Other buffers decode too, but are encoded to their canonical
  form: a flag other than 1 is written as 0, the payload under it as zeros, and a
  nonzero boolean byte as 1.
\<close>

theorem reencode_canonical:
  "(length buf = 82 \<longrightarrow> (Mint_reencode buf = Inr buf) = canonical_Mint buf) \<and>
   (length buf = 165 \<longrightarrow> (Account_reencode buf = Inr buf) = canonical_Account buf) \<and>
   (length buf = 3 + 32 * MAX_SIGNERS \<longrightarrow>
      (Multisig_reencode MAX_SIGNERS buf = Inr buf) = canonical_Multisig buf)"
  using Mint_reencode_iff Account_reencode_iff Multisig_reencode_iff by blast

text \<open>
  A canonical buffer of each record: a Mint with a mint authority and no freeze
  authority, an Account with a delegate and a native reserve and no close authority,
  and an initialized Multisig of eleven signers.
\<close>

theorem reencode_canonical_witness:
  "Mint_reencode ([1, 0, 0, 0] @ replicate 32 7 @ replicate 8 5 @ [9, 1] @ replicate 36 0) =
     Inr ([1, 0, 0, 0] @ replicate 32 7 @ replicate 8 5 @ [9, 1] @ replicate 36 0) \<and>
   Account_reencode (replicate 72 3 @ [1, 0, 0, 0] @ replicate 32 7 @ [2] @ [1, 0, 0, 0] @
       replicate 8 4 @ replicate 8 6 @ replicate 36 0) =
     Inr (replicate 72 3 @ [1, 0, 0, 0] @ replicate 32 7 @ [2] @ [1, 0, 0, 0] @
       replicate 8 4 @ replicate 8 6 @ replicate 36 0) \<and>
   Multisig_reencode 11 ([2, 3, 1] @ replicate 352 8) = Inr ([2, 3, 1] @ replicate 352 8)"
proof -
  define b1 :: "u8 list" where
    "b1 = [1, 0, 0, 0] @ replicate 32 7 @ replicate 8 5 @ [9, 1] @ replicate 36 0"
  define b2 :: "u8 list" where
    "b2 = replicate 72 3 @ [1, 0, 0, 0] @ replicate 32 7 @ [2] @ [1, 0, 0, 0] @
       replicate 8 4 @ replicate 8 6 @ replicate 36 0"
  define b3 :: "u8 list" where "b3 = [2, 3, 1] @ replicate 352 8"
  have c1: "canonical_Mint b1"
    by (simp add: b1_def canonical_Mint_def canonical_optional_def canonical_bool_def
        le_Uint32_def nth_append)
  have c2: "canonical_Account b2"
    by (simp add: b2_def canonical_Account_def canonical_optional_def le_Uint32_def)
  have c3: "canonical_Multisig b3"
    by (simp add: b3_def canonical_Multisig_def canonical_bool_def)
  have "Mint_reencode b1 = Inr b1"
    using reencode_canonical [of b1 11] c1 by (simp add: b1_def)
  moreover have "Account_reencode b2 = Inr b2"
    using reencode_canonical [of b2 11] c2 by (simp add: b2_def)
  moreover have "Multisig_reencode 11 b3 = Inr b3"
    using reencode_canonical [of b3 11] c3 by (simp add: b3_def)
  ultimately show ?thesis
    by (simp add: b1_def b2_def b3_def)
qed

text \<open>
  The claim as stated fails: a Mint buffer whose first presence flag is 2 decodes, and
  is encoded with that flag as 0; a Multisig buffer whose boolean byte is 2 is encoded
  with that byte as 1.
\<close>

theorem reencode_counterexample:
  "length (2 # replicate 81 0 :: u8 list) = 82 \<and>
   Mint_reencode (2 # replicate 81 0) = Inr (replicate 82 0) \<and>
   (replicate 82 0 :: u8 list) \<noteq> 2 # replicate 81 0 \<and>
   length ([0, 0, 2] @ replicate 352 0 :: u8 list) = 3 + 32 * 11 \<and>
   Multisig_reencode 11 ([0, 0, 2] @ replicate 352 0) = Inr ([0, 0, 1] @ replicate 352 0) \<and>
   ([0, 0, 1] @ replicate 352 0 :: u8 list) \<noteq> [0, 0, 2] @ replicate 352 0"
proof -
  have z: "(replicate 82 0 :: u8 list) = 0 # replicate 81 0"
    by (simp add: replicate_numeral_Cons)
  have f: "le_Uint32 (take 36 (2 # replicate 81 0)) \<noteq> 1"
    by (simp add: le_Uint32_def)
  have g: "le_Uint32 (take 36 (drop 46 (2 # replicate 81 0))) \<noteq> 1"
    by (simp add: le_Uint32_def)
  have m: "Mint_reencode (2 # replicate 81 0) = Inr (replicate 82 0)"
    using Mint_reencode_eq [of "2 # replicate 81 0"] f g
    by (simp add: spec_encodeOptional_def le_PutUint32_zero replicate_app_Cons_same
        flip: replicate_add replicate_Suc)
  have s: "Multisig_reencode 11 ([0, 0, 2] @ replicate 352 0) = Inr ([0, 0, 1] @ replicate 352 0)"
    using Multisig_reencode_eq [of "[0, 0, 2] @ replicate 352 0" 11] by simp
  show ?thesis
    using m s by (simp add: z)
qed

subsection \<open>Claim C2: Build on a builder with unset slots\<close>

text \<open>
  C2. \<open>Build\<close> has no error result, but it does not return on every builder. On a
  new builder of either variant, where the constructor has left slots 0 to 3 unset,
  the derivation block reads the key of the wallet slot through a \<^verbatim>\<open>nil\<close>
  pointer and the method panics; so it does after \<open>SetPayer\<close> alone.
\<close>

theorem build_panics_on_new_builder:
  "Create_Build env (NewCreateInstructionBuilder env) = Inl NilDereference \<and>
   CreateIdempotent_Build env (NewCreateIdempotentInstructionBuilder env) = Inl NilDereference \<and>
   and_then (Create_SetPayer payer (NewCreateInstructionBuilder env)) (Create_Build env) =
     Inl NilDereference"
proof -
  have d: "Create_derive_if_unset env (NewCreateInstructionBuilder env) = Inl NilDereference"
    by (simp add: Create_derive_if_unset_def NewCreateInstructionBuilder_slots slot_unset_def
        Create_slot_defs)
  have p: "Create_derive_if_unset env
      [Some (SIGNER (WRITE (Meta payer))), None, None, None, Some (Meta (SystemProgramID env)),
       Some (Meta (TokenProgramID env)), Some (Meta (SysVarRentPubkey env))] =
      Inl NilDereference"
    by (simp add: Create_derive_if_unset_def slot_unset_def Create_slot_defs)
  show ?thesis
    using Create_Build_panic [OF d] Create_Build_panic [OF p]
    by (simp add: NewCreateIdempotentInstructionBuilder_eq NewCreateInstructionBuilder_slots
        Create_SetPayer_def update_slots)
qed

subsection \<open>Claim C3: the address Build derives\<close>

text \<open>
  C3. On a builder whose slot 1 is unset or holds the zero key, and whose wallet, mint
  and token-program slots hold the keys W, M and P, \<open>Build\<close> of either variant writes
  into slot 1 the address the derivation function returns for the seeds W, P, M, in
  this order, and the owning-program id. It writes it as a writable, non-signer role,
  and takes neither the bump nor the validity flag into account. The order of the
  seeds is that of the specification: the function that lays them out is declared
  outside the file at hand.
\<close>

theorem build_derives_associated_address:
  assumes "5 < length inst" and "slot_unset (inst ! 1)"
    and "inst ! 2 = Some wallet" and "inst ! 3 = Some mint" and "inst ! 5 = Some tokenProgram"
  shows "Create_Build env inst =
      Inr (\<lparr>Impl = Impl_Create
              (inst[1 := Some (WRITE (Meta (fst (FindProgramAddress env
                 [PublicKey_bytes (PublicKey wallet), PublicKey_bytes (PublicKey tokenProgram),
                  PublicKey_bytes (PublicKey mint)] (ProgramID env)))))]),
            TypeID = Instruction_Create env\<rparr>,
           inst[1 := Some (WRITE (Meta (fst (FindProgramAddress env
                 [PublicKey_bytes (PublicKey wallet), PublicKey_bytes (PublicKey tokenProgram),
                  PublicKey_bytes (PublicKey mint)] (ProgramID env)))))]) \<and>
    CreateIdempotent_Build env inst =
      Inr (\<lparr>Impl = Impl_CreateIdempotent
              (inst[1 := Some (WRITE (Meta (fst (FindProgramAddress env
                 [PublicKey_bytes (PublicKey wallet), PublicKey_bytes (PublicKey tokenProgram),
                  PublicKey_bytes (PublicKey mint)] (ProgramID env)))))]),
            TypeID = Instruction_CreateIdempotent env\<rparr>,
           inst[1 := Some (WRITE (Meta (fst (FindProgramAddress env
                 [PublicKey_bytes (PublicKey wallet), PublicKey_bytes (PublicKey tokenProgram),
                  PublicKey_bytes (PublicKey mint)] (ProgramID env)))))])"
proof -
  have "Create_derive_if_unset env inst =
      Inr (inst[1 := Some (WRITE (Meta (fst (FindProgramAddress env
             [PublicKey_bytes (PublicKey wallet), PublicKey_bytes (PublicKey tokenProgram),
              PublicKey_bytes (PublicKey mint)] (ProgramID env)))))])"
    using Create_derive_set [OF assms, of env] by (simp add: FindAssociatedTokenAddress_def)
  then show ?thesis
    by (simp add: Create_Build_eq CreateIdempotent_Build_eq)
qed

text \<open>
  The builder of \<^verbatim>\<open>NewCreateInstruction\<close> with payer 9, wallet 1, mint 2 and token
  program 3, in the example environment: the derived address starts with the bytes
  1, 3, 2 of the seeds and 8 of the program id.
\<close>

theorem build_derives_associated_address_witness:
  "NewCreateInstruction example_env (key_of 9) (key_of 1) (key_of 2) (key_of 3) =
     Inr [Some (SIGNER (WRITE (Meta (key_of 9)))), None, Some (Meta (key_of 1)),
          Some (Meta (key_of 2)), Some (Meta (key_of 0)), Some (Meta (key_of 3)),
          Some (Meta (key_of 7))] \<and>
   Create_Build example_env
     [Some (SIGNER (WRITE (Meta (key_of 9)))), None, Some (Meta (key_of 1)),
      Some (Meta (key_of 2)), Some (Meta (key_of 0)), Some (Meta (key_of 3)),
      Some (Meta (key_of 7))] =
     Inr (\<lparr>Impl = Impl_Create
             [Some (SIGNER (WRITE (Meta (key_of 9)))),
              Some (WRITE (Meta (PublicKeyFromBytes [1, 3, 2, 8]))), Some (Meta (key_of 1)),
              Some (Meta (key_of 2)), Some (Meta (key_of 0)), Some (Meta (key_of 3)),
              Some (Meta (key_of 7))],
           TypeID = 0\<rparr>,
          [Some (SIGNER (WRITE (Meta (key_of 9)))),
           Some (WRITE (Meta (PublicKeyFromBytes [1, 3, 2, 8]))), Some (Meta (key_of 1)),
           Some (Meta (key_of 2)), Some (Meta (key_of 0)), Some (Meta (key_of 3)),
           Some (Meta (key_of 7))])"
proof -
  define inst where "inst =
    [Some (SIGNER (WRITE (Meta (key_of 9)))), None, Some (Meta (key_of 1)),
     Some (Meta (key_of 2)), Some (Meta (key_of 0)), Some (Meta (key_of 3)),
     Some (Meta (key_of 7))]"
  have h: "5 < length inst" "slot_unset (inst ! 1)" "inst ! 2 = Some (Meta (key_of 1))"
    "inst ! 3 = Some (Meta (key_of 2))" "inst ! 5 = Some (Meta (key_of 3))"
    by (simp_all add: inst_def slot_unset_def)
  have d: "fst (FindProgramAddress example_env
      [PublicKey_bytes (key_of 1), PublicKey_bytes (key_of 3), PublicKey_bytes (key_of 2)]
      (ProgramID example_env)) = PublicKeyFromBytes [1, 3, 2, 8]"
    using example_env_derive [of 1 2 3] by (simp add: FindAssociatedTokenAddress_def)
  have "Create_Build example_env inst =
     Inr (\<lparr>Impl = Impl_Create (inst[1 := Some (WRITE (Meta (PublicKeyFromBytes [1, 3, 2, 8])))]),
           TypeID = 0\<rparr>,
          inst[1 := Some (WRITE (Meta (PublicKeyFromBytes [1, 3, 2, 8])))])"
    using build_derives_associated_address [OF h, of example_env] d by simp
  then show ?thesis
    by (simp add: inst_def NewCreateInstruction_slots update_slots)
qed

subsection \<open>Claim C4: Validate reports the first unset slot\<close>



subsection \<open>Claim C5: a presence flag other than 1\<close>

text \<open>
  C5. Decoding a new record from a buffer that holds all of it succeeds whatever the
  presence flags are. An optional field whose flag is anything but 1 (0, 2, ...) is
  \<open>None\<close> in the decoded record, and its payload bytes are read all the same: the
  fields after it come from the offsets behind the full slot, and the position ends
  behind the whole record. (The methods assign an optional field only under flag 1;
  \<open>Mint_decode\<close> and \<open>Account_decode\<close> decode into the zero value, whose optional
  fields are \<open>None\<close>.)
\<close>

theorem presence_flag_not_one:
  "(82 \<le> length buf \<longrightarrow>
      (\<exists>mint dec. Mint_decode buf = Inr (mint, dec) \<and> pos dec = 82 \<and>
         (le_Uint32 buf \<noteq> 1 \<longrightarrow> MintAuthority mint = None) \<and>
         Supply mint = le_Uint64 (drop 36 buf) \<and>
         (le_Uint32 (drop 46 buf) \<noteq> 1 \<longrightarrow> FreezeAuthority mint = None))) \<and>
   (165 \<le> length buf \<longrightarrow>
      (\<exists>account dec. Account_decode buf = Inr (account, dec) \<and> pos dec = 165 \<and>
         (le_Uint32 (drop 72 buf) \<noteq> 1 \<longrightarrow> Delegate account = None) \<and>
         State account = buf ! 108 \<and>
         (le_Uint32 (drop 109 buf) \<noteq> 1 \<longrightarrow> IsNative account = None) \<and>
         DelegatedAmount account = le_Uint64 (drop 121 buf) \<and>
         (le_Uint32 (drop 129 buf) \<noteq> 1 \<longrightarrow> CloseAuthority account = None)))"
  by (simp add: Mint_decode_ok Account_decode_ok)

theorem presence_flag_not_one_witness:
  "(\<exists>mint dec. Mint_decode (2 # replicate 81 0) = Inr (mint, dec) \<and> pos dec = 82 \<and>
      MintAuthority mint = None \<and> FreezeAuthority mint = None) \<and>
   (\<exists>account dec. Account_decode (replicate 72 0 @ 2 # replicate 92 0) = Inr (account, dec) \<and>
      pos dec = 165 \<and> Delegate account = None \<and> IsNative account = None \<and>
      CloseAuthority account = None)"
proof -
  have f1: "le_Uint32 (2 # replicate 81 0) \<noteq> 1"
    by (simp add: le_Uint32_def)
  have f2: "le_Uint32 (drop 46 (2 # replicate 81 0)) \<noteq> 1"
    by (simp add: le_Uint32_def)
  have 1: "\<exists>mint dec. Mint_decode (2 # replicate 81 0) = Inr (mint, dec) \<and> pos dec = 82 \<and>
      MintAuthority mint = None \<and> FreezeAuthority mint = None"
    using presence_flag_not_one [of "2 # replicate 81 0"] f1 f2 by auto
  have g1: "le_Uint32 (drop 72 (replicate 72 0 @ 2 # replicate 92 0)) \<noteq> 1"
    by (simp add: le_Uint32_def)
  have g2: "le_Uint32 (drop 109 (replicate 72 0 @ 2 # replicate 92 0)) \<noteq> 1"
    by (simp add: le_Uint32_def)
  have g3: "le_Uint32 (drop 129 (replicate 72 0 @ 2 # replicate 92 0)) \<noteq> 1"
    by (simp add: le_Uint32_def)
  have 2: "\<exists>account dec. Account_decode (replicate 72 0 @ 2 # replicate 92 0) = Inr (account, dec) \<and>
      pos dec = 165 \<and> Delegate account = None \<and> IsNative account = None \<and>
      CloseAuthority account = None"
    using presence_flag_not_one [of "replicate 72 0 @ 2 # replicate 92 0"] g1 g2 g3 by auto
  show ?thesis using 1 2 by blast
qed

subsection \<open>Claim C6: the encoded size is fixed\<close>

text \<open>
  C6. For every Mint value and every Account value, whichever optional fields are
  present, encoding succeeds and appends exactly the bytes of the wire format: 82 bytes
  for a Mint and 165 bytes for an Account. An absent optional field is written as a
  zero flag followed by as many zero bytes as its payload has; it is never left out.
\<close>

theorem encode_fixed_size:
  "Mint_MarshalWithEncoder mint enc = Inr (enc @ spec_Mint_bytes mint) \<and>
   Mint_encode mint = Inr (spec_Mint_bytes mint) \<and>
   length (spec_Mint_bytes mint) = 82 \<and>
   Account_MarshalWithEncoder account enc = Inr (enc @ spec_Account_bytes account) \<and>
   Account_encode account = Inr (spec_Account_bytes account) \<and>
   length (spec_Account_bytes account) = 165 \<and>
   spec_encodeOptional n payload None = replicate (4 + n) 0"
proof -
  have "spec_encodeOptional n payload None = replicate (4 + n) 0"
    by (simp add: spec_encodeOptional_def le_PutUint32_zero replicate_add)
  then show ?thesis
    by (simp add: Mint_Marshal_eq Account_Marshal_eq Mint_encode_def Account_encode_def
        spec_Mint_bytes_length spec_Account_bytes_length)
qed

theorem encode_fixed_size_witness:
  "Mint_encode Mint_zero = Inr (replicate 82 0) \<and>
   Account_encode Account_zero = Inr (replicate 165 0)"
proof -
  have m: "spec_Mint_bytes Mint_zero = replicate 82 0"
    by (simp add: spec_Mint_bytes_def Mint_zero_def spec_encodeOptional_def
        le_PutUint32_zero le_PutUint64_zero replicate_app_Cons_same
        flip: replicate_add replicate_Suc)
  have a: "spec_Account_bytes Account_zero = replicate 165 0"
    by (simp add: spec_Account_bytes_def Account_zero_def spec_encodeOptional_def
        le_PutUint32_zero le_PutUint64_zero replicate_app_Cons_same
        flip: replicate_add replicate_Suc)
  show ?thesis
    using encode_fixed_size [of Mint_zero "[]" Account_zero 32 PublicKey_bytes]
    by (simp add: m a)
qed

subsection \<open>Claim C7: short buffers and trailing bytes\<close>

lemma Decoder_eta: "\<lparr>data = data dec, pos = pos dec\<rparr> = dec"
  by simp

lemma Mint_Unmarshal_short:
  assumes "Remaining dec < 82"
  shows "Mint_UnmarshalWithDecoder mint dec = Inl UnexpectedEOF"
proof -
  have "length (data dec) < pos dec + 82"
    using assms by (simp add: Remaining_def)
  then show ?thesis
    using Mint_Unmarshal_eof [of "data dec" "pos dec" mint] by (simp add: Decoder_eta)
qed

lemma Mint_Unmarshal_long:
  assumes "82 \<le> Remaining dec"
  shows "\<exists>mint'. Mint_UnmarshalWithDecoder mint dec = Inr (mint', dec\<lparr>pos := pos dec + 82\<rparr>)"
proof -
  have "pos dec + 82 \<le> length (data dec)"
    using assms by (simp add: Remaining_def)
  then show ?thesis
    using Mint_Unmarshal_ok [of "pos dec" "data dec" mint] by (simp add: Decoder_eta)
qed

lemma Account_Unmarshal_short:
  assumes "Remaining dec < 165"
  shows "Account_UnmarshalWithDecoder account dec = Inl UnexpectedEOF"
proof -
  have "length (data dec) < pos dec + 165"
    using assms by (simp add: Remaining_def)
  then show ?thesis
    using Account_Unmarshal_eof [of "data dec" "pos dec" account] by (simp add: Decoder_eta)
qed

lemma Account_Unmarshal_long:
  assumes "165 \<le> Remaining dec"
  shows "\<exists>account'. Account_UnmarshalWithDecoder account dec =
    Inr (account', dec\<lparr>pos := pos dec + 165\<rparr>)"
proof -
  have "pos dec + 165 \<le> length (data dec)"
    using assms by (simp add: Remaining_def)
  then show ?thesis
    using Account_Unmarshal_ok [of "pos dec" "data dec" account] by (simp add: Decoder_eta)
qed

text \<open>
  C7. A decoder with fewer bytes left than the record's fixed size (82 for a Mint, 165
  for an Account) makes the decode fail with \<open>UnexpectedEOF\<close>, wherever in the record
  the buffer ends: no record comes back, so nothing is truncated or padded. A decoder
  with at least that many bytes left decodes, and its position moves on by exactly the
  fixed size: bytes after the record stay unread.
\<close>

theorem decode_short_buffer:
  "(Remaining dec < 82 \<longrightarrow> Mint_UnmarshalWithDecoder mint dec = Inl UnexpectedEOF) \<and>
   (82 \<le> Remaining dec \<longrightarrow>
      (\<exists>mint'. Mint_UnmarshalWithDecoder mint dec = Inr (mint', dec\<lparr>pos := pos dec + 82\<rparr>))) \<and>
   (Remaining dec < 165 \<longrightarrow> Account_UnmarshalWithDecoder account dec = Inl UnexpectedEOF) \<and>
   (165 \<le> Remaining dec \<longrightarrow>
      (\<exists>account'. Account_UnmarshalWithDecoder account dec =
         Inr (account', dec\<lparr>pos := pos dec + 165\<rparr>)))"
  using Mint_Unmarshal_short Mint_Unmarshal_long Account_Unmarshal_short Account_Unmarshal_long
  by blast

theorem decode_short_buffer_witness:
  "Mint_decode (replicate 81 0) = Inl UnexpectedEOF \<and>
   (\<exists>mint'. Mint_decode (replicate 83 0) = Inr (mint', \<lparr>data = replicate 83 0, pos = 82\<rparr>)) \<and>
   Account_decode (replicate 164 0) = Inl UnexpectedEOF \<and>
   (\<exists>account'. Account_decode (replicate 166 0) =
      Inr (account', \<lparr>data = replicate 166 0, pos = 165\<rparr>))"
proof -
  have 1: "Mint_decode (replicate 81 0) = Inl UnexpectedEOF"
    using decode_short_buffer [of "NewBinDecoder (replicate 81 0)" Mint_zero Account_zero]
    by (simp add: Mint_decode_def NewBinDecoder_def Remaining_def)
  have 2: "\<exists>mint'. Mint_decode (replicate 83 0) = Inr (mint', \<lparr>data = replicate 83 0, pos = 82\<rparr>)"
    using decode_short_buffer [of "NewBinDecoder (replicate 83 0)" Mint_zero Account_zero]
    by (simp add: Mint_decode_def NewBinDecoder_def Remaining_def)
  have 3: "Account_decode (replicate 164 0) = Inl UnexpectedEOF"
    using decode_short_buffer [of "NewBinDecoder (replicate 164 0)" Mint_zero Account_zero]
    by (simp add: Account_decode_def NewBinDecoder_def Remaining_def)
  have 4: "\<exists>account'. Account_decode (replicate 166 0) =
      Inr (account', \<lparr>data = replicate 166 0, pos = 165\<rparr>)"
    using decode_short_buffer [of "NewBinDecoder (replicate 166 0)" Mint_zero Account_zero]
    by (simp add: Account_decode_def NewBinDecoder_def Remaining_def)
  show ?thesis using 1 2 3 4 by blast
qed

subsection \<open>Claim C8: the two variants differ in the discriminant only\<close>

lemma CreateIdempotent_call_eq: "CreateIdempotent_call c inst = Create_call c inst"
  by (cases c) (simp_all add: Create_slot_defs CreateIdempotent_slot_defs)

lemma CreateIdempotent_calls_eq: "CreateIdempotent_calls cs inst = Create_calls cs inst"
proof (induction cs arbitrary: inst)
  case Nil
  show ?case by simp
next
  case (Cons c cs)
  show ?case
    by (cases "Create_call c inst") (simp_all add: CreateIdempotent_call_eq Cons.IH)
qed

lemma NewCreateIdempotentInstruction_eq:
  "NewCreateIdempotentInstruction env payer wallet mint tokenProgramID =
     NewCreateInstruction env payer wallet mint tokenProgramID"
  unfolding NewCreateIdempotentInstruction_def NewCreateInstruction_def
    NewCreateIdempotentInstructionBuilder_eq CreateIdempotent_slot_defs Create_slot_defs
  by (rule refl)

text \<open>
  C8. The same sequence of setter calls on a new Create builder and on a new
  CreateIdempotent builder leaves the same slots (or stops at the same panic), and so
  do the two constructors that take the four keys. From the same slots the two
  \<open>Build\<close> methods stop at the same panic or return instructions with the same
  accounts: the same addresses and flags in every slot. Both write an empty parameter
  payload. The instructions differ in the discriminant, the constant of each variant.
\<close>

theorem create_variants_agree:
  "CreateIdempotent_calls cs (NewCreateIdempotentInstructionBuilder env) =
     Create_calls cs (NewCreateInstructionBuilder env) \<and>
   NewCreateIdempotentInstruction env payer wallet mint tokenProgramID =
     NewCreateInstruction env payer wallet mint tokenProgramID \<and>
   (\<forall>p. (CreateIdempotent_Build env inst = Inl p) = (Create_Build env inst = Inl p)) \<and>
   (\<forall>ins inst'. Create_Build env inst = Inr (ins, inst') \<longrightarrow>
      (\<exists>ins'. CreateIdempotent_Build env inst = Inr (ins', inst') \<and>
         Impl_accounts (Impl ins) = inst' \<and> Impl_accounts (Impl ins') = inst' \<and>
         TypeID ins = Instruction_Create env \<and>
         TypeID ins' = Instruction_CreateIdempotent env)) \<and>
   Create_MarshalWithEncoder inst enc = Inr enc \<and>
   CreateIdempotent_MarshalWithEncoder inst enc = Inr enc"
proof (intro conjI allI impI)
  show "CreateIdempotent_calls cs (NewCreateIdempotentInstructionBuilder env) =
     Create_calls cs (NewCreateInstructionBuilder env)"
    by (simp add: CreateIdempotent_calls_eq NewCreateIdempotentInstructionBuilder_eq)
  show "NewCreateIdempotentInstruction env payer wallet mint tokenProgramID =
     NewCreateInstruction env payer wallet mint tokenProgramID"
    by (rule NewCreateIdempotentInstruction_eq)
  show "(CreateIdempotent_Build env inst = Inl p) = (Create_Build env inst = Inl p)" for p
    by (cases "Create_derive_if_unset env inst")
      (simp_all add: Create_Build_def CreateIdempotent_Build_def CreateIdempotent_derive_eq)
  show "\<exists>ins'. CreateIdempotent_Build env inst = Inr (ins', inst') \<and>
         Impl_accounts (Impl ins) = inst' \<and> Impl_accounts (Impl ins') = inst' \<and>
         TypeID ins = Instruction_Create env \<and>
         TypeID ins' = Instruction_CreateIdempotent env"
    if b: "Create_Build env inst = Inr (ins, inst')" for ins inst'
  proof -
    have d: "Create_derive_if_unset env inst = Inr inst'"
      using b by (cases "Create_derive_if_unset env inst") (auto simp add: Create_Build_def)
    have "ins = \<lparr>Impl = Impl_Create inst', TypeID = Instruction_Create env\<rparr>"
      using b Create_Build_eq [OF d] by simp
    then show ?thesis
      using CreateIdempotent_Build_eq [OF d] by simp
  qed
  show "Create_MarshalWithEncoder inst enc = Inr enc"
    by (simp add: Create_MarshalWithEncoder_def WriteBytes_def)
  show "CreateIdempotent_MarshalWithEncoder inst enc = Inr enc"
    by (simp add: CreateIdempotent_MarshalWithEncoder_def WriteBytes_def)
qed

text \<open>
  Payer 9, wallet 1, mint 2 and token program 3 in the example environment: the two
  instructions hold the same seven accounts, under the discriminants 0 and 1.
\<close>

theorem create_variants_agree_witness:
  "Create_Build example_env
     [Some (SIGNER (WRITE (Meta (key_of 9)))), None, Some (Meta (key_of 1)),
      Some (Meta (key_of 2)), Some (Meta (key_of 0)), Some (Meta (key_of 3)),
      Some (Meta (key_of 7))] =
     Inr (\<lparr>Impl = Impl_Create
             [Some (SIGNER (WRITE (Meta (key_of 9)))),
              Some (WRITE (Meta (PublicKeyFromBytes [1, 3, 2, 8]))), Some (Meta (key_of 1)),
              Some (Meta (key_of 2)), Some (Meta (key_of 0)), Some (Meta (key_of 3)),
              Some (Meta (key_of 7))],
           TypeID = 0\<rparr>,
          [Some (SIGNER (WRITE (Meta (key_of 9)))),
           Some (WRITE (Meta (PublicKeyFromBytes [1, 3, 2, 8]))), Some (Meta (key_of 1)),
           Some (Meta (key_of 2)), Some (Meta (key_of 0)), Some (Meta (key_of 3)),
           Some (Meta (key_of 7))]) \<and>
   CreateIdempotent_Build example_env
     [Some (SIGNER (WRITE (Meta (key_of 9)))), None, Some (Meta (key_of 1)),
      Some (Meta (key_of 2)), Some (Meta (key_of 0)), Some (Meta (key_of 3)),
      Some (Meta (key_of 7))] =
     Inr (\<lparr>Impl = Impl_CreateIdempotent
             [Some (SIGNER (WRITE (Meta (key_of 9)))),
              Some (WRITE (Meta (PublicKeyFromBytes [1, 3, 2, 8]))), Some (Meta (key_of 1)),
              Some (Meta (key_of 2)), Some (Meta (key_of 0)), Some (Meta (key_of 3)),
              Some (Meta (key_of 7))],
           TypeID = 1\<rparr>,
          [Some (SIGNER (WRITE (Meta (key_of 9)))),
           Some (WRITE (Meta (PublicKeyFromBytes [1, 3, 2, 8]))), Some (Meta (key_of 1)),
           Some (Meta (key_of 2)), Some (Meta (key_of 0)), Some (Meta (key_of 3)),
           Some (Meta (key_of 7))]) \<and>
   CreateIdempotent_calls [SetPayer (key_of 9), SetWallet (key_of 1), SetMint (key_of 2),
       SetTokenProgramID (key_of 3)] (NewCreateIdempotentInstructionBuilder example_env) =
     Inr [Some (SIGNER (WRITE (Meta (key_of 9)))), None, Some (Meta (key_of 1)),
          Some (Meta (key_of 2)), Some (Meta (key_of 0)), Some (Meta (key_of 3)),
          Some (Meta (key_of 7))]"
proof -
  define c where "c =
    [Some (SIGNER (WRITE (Meta (key_of 9)))), None, Some (Meta (key_of 1)),
     Some (Meta (key_of 2)), Some (Meta (key_of 0)), Some (Meta (key_of 3)),
     Some (Meta (key_of 7))]"
  define c' where "c' =
    [Some (SIGNER (WRITE (Meta (key_of 9)))),
     Some (WRITE (Meta (PublicKeyFromBytes [1, 3, 2, 8]))), Some (Meta (key_of 1)),
     Some (Meta (key_of 2)), Some (Meta (key_of 0)), Some (Meta (key_of 3)),
     Some (Meta (key_of 7))]"
  define cs where "cs = [SetPayer (key_of 9), SetWallet (key_of 1), SetMint (key_of 2),
    SetTokenProgramID (key_of 3)]"
  have dc: "Create_derive_if_unset example_env c = Inr c'"
    using Create_derive_set [of c "Meta (key_of 1)" "Meta (key_of 2)" "Meta (key_of 3)" example_env]
    by (simp add: c_def c'_def slot_unset_def update_slots)
  have b: "Create_Build example_env c = Inr (\<lparr>Impl = Impl_Create c', TypeID = 0\<rparr>, c')"
    using Create_Build_eq [OF dc] by simp
  have all: "\<And>ins inst'. Create_Build example_env c = Inr (ins, inst') \<Longrightarrow>
      (\<exists>ins'. CreateIdempotent_Build example_env c = Inr (ins', inst') \<and>
         Impl_accounts (Impl ins) = inst' \<and> Impl_accounts (Impl ins') = inst' \<and>
         TypeID ins = Instruction_Create example_env \<and>
         TypeID ins' = Instruction_CreateIdempotent example_env)"
    and calls: "CreateIdempotent_calls cs (NewCreateIdempotentInstructionBuilder example_env) =
      Create_calls cs (NewCreateInstructionBuilder example_env)"
    using create_variants_agree
      [of cs example_env "key_of 9" "key_of 1" "key_of 2" "key_of 3" c "[]"]
    by blast+
  obtain ins' where i: "CreateIdempotent_Build example_env c = Inr (ins', c')"
    "Impl_accounts (Impl ins') = c'" "TypeID ins' = 1"
    using all [OF b] by auto
  have "Impl ins' = Impl_CreateIdempotent c'"
    using i(1) CreateIdempotent_Build_eq [OF dc] by auto
  then have "ins' = \<lparr>Impl = Impl_CreateIdempotent c', TypeID = 1\<rparr>"
    using i(3) by (cases ins') simp
  then have b': "CreateIdempotent_Build example_env c =
      Inr (\<lparr>Impl = Impl_CreateIdempotent c', TypeID = 1\<rparr>, c')"
    using i(1) by simp
  have r: "Create_calls cs (NewCreateInstructionBuilder example_env) = Inr c"
    by (simp add: cs_def c_def NewCreateInstructionBuilder_slots Create_slot_defs update_slots)
  show ?thesis
    using b b' calls r by (simp add: c_def c'_def cs_def)
qed

subsection \<open>Claim C9: only slot 1 changes\<close>

text \<open>
  C9. When \<open>Build\<close> or \<open>Validate\<close> of either variant returns, the builder has as many
  slots as before and every slot but slot 1 holds what it held. \<open>Validate\<close> writes
  slot 1 before it looks for unset slots: whatever it returns, an error included, the
  slots it leaves are those the derivation block left, and if slot 1 was unset or zero
  it now holds the address derived from the wallet, mint and token-program slots.
\<close>

theorem build_validate_change_slot_1_only:
  "(Create_Build env inst = Inr (ins, inst') \<longrightarrow>
      length inst' = length inst \<and> (\<forall>i. i \<noteq> 1 \<longrightarrow> inst' ! i = inst ! i)) \<and>
   (CreateIdempotent_Build env inst = Inr (ins, inst') \<longrightarrow>
      length inst' = length inst \<and> (\<forall>i. i \<noteq> 1 \<longrightarrow> inst' ! i = inst ! i)) \<and>
   (Create_Validate env inst = Inr (err, inst') \<or>
    CreateIdempotent_Validate env inst = Inr (err, inst') \<longrightarrow>
      length inst' = length inst \<and> (\<forall>i. i \<noteq> 1 \<longrightarrow> inst' ! i = inst ! i) \<and>
      Create_derive_if_unset env inst = Inr inst' \<and>
      (slot_unset (inst ! 1) \<longrightarrow>
         (\<exists>wallet mint tokenProgram.
            inst ! 2 = Some wallet \<and> inst ! 3 = Some mint \<and> inst ! 5 = Some tokenProgram \<and>
            inst' ! 1 = Some (WRITE (Meta (fst (FindAssociatedTokenAddress env
              (PublicKey wallet) (PublicKey mint) (PublicKey tokenProgram))))))))"
proof (intro conjI impI)
  assume b: "Create_Build env inst = Inr (ins, inst')"
  then have d: "Create_derive_if_unset env inst = Inr inst'"
    by (cases "Create_derive_if_unset env inst") (auto simp add: Create_Build_def)
  show "length inst' = length inst"
    using Create_derive_length [OF d] .
  show "\<forall>i. i \<noteq> 1 \<longrightarrow> inst' ! i = inst ! i"
    using Create_derive_frame [OF d] by blast
next
  assume b: "CreateIdempotent_Build env inst = Inr (ins, inst')"
  then have d: "Create_derive_if_unset env inst = Inr inst'"
    by (cases "Create_derive_if_unset env inst")
      (auto simp add: CreateIdempotent_Build_def CreateIdempotent_derive_eq)
  show "length inst' = length inst"
    using Create_derive_length [OF d] .
  show "\<forall>i. i \<noteq> 1 \<longrightarrow> inst' ! i = inst ! i"
    using Create_derive_frame [OF d] by blast
next
  assume "Create_Validate env inst = Inr (err, inst') \<or>
    CreateIdempotent_Validate env inst = Inr (err, inst')"
  then have v: "Create_Validate env inst = Inr (err, inst')"
    by (simp add: CreateIdempotent_Validate_eq)
  then have d: "Create_derive_if_unset env inst = Inr inst'"
    by (cases "Create_derive_if_unset env inst") (auto simp add: Create_Validate_def)
  show "length inst' = length inst"
    using Create_derive_length [OF d] .
  show "\<forall>i. i \<noteq> 1 \<longrightarrow> inst' ! i = inst ! i"
    using Create_derive_frame [OF d] by blast
  show "Create_derive_if_unset env inst = Inr inst'"
    by (rule d)
  show "\<exists>wallet mint tokenProgram.
            inst ! 2 = Some wallet \<and> inst ! 3 = Some mint \<and> inst ! 5 = Some tokenProgram \<and>
            inst' ! 1 = Some (WRITE (Meta (fst (FindAssociatedTokenAddress env
              (PublicKey wallet) (PublicKey mint) (PublicKey tokenProgram)))))"
    if u: "slot_unset (inst ! 1)"
    using Create_derive_cases [OF d] u by auto
qed

text \<open>
  A builder with wallet 1 and mint 2 and no payer, in the example environment:
  \<open>Validate\<close> returns the error for slot 0, and slot 1 holds the derived address.
\<close>

theorem build_validate_change_slot_1_only_witness:
  "Create_Validate example_env
     [None, None, Some (Meta (key_of 1)), Some (Meta (key_of 2)), Some (Meta (key_of 0)),
      Some (Meta (key_of 6)), Some (Meta (key_of 7))] =
     Inr (Some (MissingAccountRole 0),
          [None, Some (WRITE (Meta (PublicKeyFromBytes [1, 6, 2, 8]))), Some (Meta (key_of 1)),
           Some (Meta (key_of 2)), Some (Meta (key_of 0)), Some (Meta (key_of 6)),
           Some (Meta (key_of 7))]) \<and>
   length [None, Some (WRITE (Meta (PublicKeyFromBytes [1, 6, 2, 8]))), Some (Meta (key_of 1)),
           Some (Meta (key_of 2)), Some (Meta (key_of 0)), Some (Meta (key_of 6)),
           Some (Meta (key_of 7))] = 7"
proof -
  define a where "a =
    [None, None, Some (Meta (key_of 1)), Some (Meta (key_of 2)), Some (Meta (key_of 0)),
     Some (Meta (key_of 6)), Some (Meta (key_of 7))]"
  define a' where "a' =
    [None, Some (WRITE (Meta (PublicKeyFromBytes [1, 6, 2, 8]))), Some (Meta (key_of 1)),
     Some (Meta (key_of 2)), Some (Meta (key_of 0)), Some (Meta (key_of 6)),
     Some (Meta (key_of 7))]"
  have da: "Create_derive_if_unset example_env a = Inr a'"
    using Create_derive_set [of a "Meta (key_of 1)" "Meta (key_of 2)" "Meta (key_of 6)" example_env]
    by (simp add: a_def a'_def slot_unset_def update_slots)
  have v: "Create_Validate example_env a = Inr (Some (MissingAccountRole 0), a')"
    using Create_Validate_eq [OF da] by (simp add: a'_def)
  have "length a' = length a"
    using build_validate_change_slot_1_only
      [of example_env a "\<lparr>Impl = Impl_Create a', TypeID = 0\<rparr>" a' "Some (MissingAccountRole 0)"] v
    by blast
  then show ?thesis
    using v by (simp add: a_def a'_def)
qed

subsection \<open>Claim C10: the flags each operation sets\<close>



end
